theory Spec2Isabelle
  imports Main
begin

section \<open>JavaScript values and JSON payloads\<close>

text \<open>
  The relay (\<^verbatim>\<open>server/server.js\<close>) and the call controller
  (\<^verbatim>\<open>webrtc-voip/src/VoIPApp.jsx\<close>) exchange JSON texts. A JavaScript value is
  modelled by the datatype below; numbers are integers, which is all the code observes of
  them (truthiness and strict comparison with a string).
\<close>

datatype jsval =
    JUndefined
  | JNull
  | JBool bool
  | JNum int
  | JStr string
  | JArr "jsval list"
  | JObj "(string \<times> jsval) list"

text \<open>
  A text on the wire is identified with what \<^verbatim>\<open>JSON.parse\<close> makes of it: either a
  \<^verbatim>\<open>SyntaxError\<close> (\<open>NotJSON\<close>) or a value.
\<close>

datatype payload = NotJSON | JSON jsval

fun JSON_parse :: "payload \<Rightarrow> jsval option" where
  "JSON_parse NotJSON = None"
| "JSON_parse (JSON v) = Some v"

text \<open>
  \<^verbatim>\<open>JSON.stringify\<close> leaves out the properties of an object whose value is
  \<^verbatim>\<open>undefined\<close> and writes \<^verbatim>\<open>null\<close> for such an element of an array.
\<close>

fun dropUndefined :: "jsval \<Rightarrow> jsval" where
  "dropUndefined (JObj kvs) =
     JObj (map (\<lambda>(k, v). (k, dropUndefined v)) (filter (\<lambda>(k, v). v \<noteq> JUndefined) kvs))"
| "dropUndefined (JArr vs) =
     JArr (map (\<lambda>v. if v = JUndefined then JNull else dropUndefined v) vs)"
| "dropUndefined v = v"

definition JSON_stringify :: "jsval \<Rightarrow> payload" where
  "JSON_stringify v = JSON (dropUndefined v)"

text \<open>
  Reading a property: a \<^verbatim>\<open>TypeError\<close> (\<open>None\<close>) on \<^verbatim>\<open>null\<close> and
  \<^verbatim>\<open>undefined\<close>, the property's value on an object, \<^verbatim>\<open>undefined\<close> where the
  property is missing. None of the names the code reads (\<^verbatim>\<open>type\<close>, \<^verbatim>\<open>target\<close>,
  \<^verbatim>\<open>from\<close>, \<^verbatim>\<open>offer\<close>, \<^verbatim>\<open>answer\<close>, \<^verbatim>\<open>candidate\<close>, \<^verbatim>\<open>clientId\<close>) is a
  built-in property of a string, a number, a boolean or an array.
\<close>

fun propOf :: "jsval \<Rightarrow> string \<Rightarrow> jsval" where
  "propOf (JObj kvs) k = (case map_of kvs k of None \<Rightarrow> JUndefined | Some v \<Rightarrow> v)"
| "propOf v k = JUndefined"

fun getProp :: "jsval \<Rightarrow> string \<Rightarrow> jsval option" where
  "getProp JUndefined k = None"
| "getProp JNull k = None"
| "getProp v k = Some (propOf v k)"

text \<open>
  Writing a property, as the object literal \<^verbatim>\<open>{...message, from: clientId}\<close> does: the
  value is replaced where the property exists and added at the end where it does not.
\<close>

fun setProp :: "(string \<times> jsval) list \<Rightarrow> string \<Rightarrow> jsval \<Rightarrow> (string \<times> jsval) list" where
  "setProp [] k v = [(k, v)]"
| "setProp ((k', v') # kvs) k v = (if k' = k then (k, v) # kvs else (k', v') # setProp kvs k v)"

text \<open>Truthiness, as \<^verbatim>\<open>if (x)\<close>, \<^verbatim>\<open>!x\<close> and \<^verbatim>\<open>x && y\<close> test it.\<close>

fun truthy :: "jsval \<Rightarrow> bool" where
  "truthy JUndefined = False"
| "truthy JNull = False"
| "truthy (JBool b) = b"
| "truthy (JNum n) = (n \<noteq> 0)"
| "truthy (JStr s) = (s \<noteq> [])"
| "truthy (JArr vs) = True"
| "truthy (JObj kvs) = True"

section \<open>The relay: server/server.js\<close>

datatype readyState = CONNECTING | OPEN | CLOSING | CLOSED

text \<open>
  A member of \<^verbatim>\<open>wss.clients\<close>: the socket object (its identity is \<open>sock\<close>), its
  \<^verbatim>\<open>readyState\<close>, and the texts handed to its \<^verbatim>\<open>send\<close> so far.
\<close>

record client =
  sock :: nat
  readyState :: readyState
  outbox :: "payload list"

text \<open>The relay holds nothing but the set of its clients, in insertion order.\<close>

record wss =
  clients :: "client list"

datatype console =
    ConsoleLog string
  | ConsoleWarn string jsval
  | ConsoleError string

text \<open>
  \<^verbatim>\<open>wss.clients.forEach((client) => { if (client !== socket && client.readyState ===
  WebSocket.OPEN) client.send(JSON.stringify(parsedMessage)) })\<close>
\<close>

definition forEach_send :: "client list \<Rightarrow> nat \<Rightarrow> jsval \<Rightarrow> client list" where
  "forEach_send cs socket parsedMessage =
     map (\<lambda>client.
            if sock client \<noteq> socket \<and> readyState client = OPEN
            then client\<lparr>outbox := outbox client @ [JSON_stringify parsedMessage]\<rparr>
            else client) cs"

text \<open>
  \<^verbatim>\<open>socket.on('message', (rawMessage) => { try { ... } catch (error) { console.error(...) } })\<close>:
  the relay after the message and what it wrote to the console. Both the
  \<^verbatim>\<open>SyntaxError\<close> of \<^verbatim>\<open>JSON.parse\<close> and the \<^verbatim>\<open>TypeError\<close> of reading
  \<^verbatim>\<open>.type\<close> of \<^verbatim>\<open>null\<close> end in the \<^verbatim>\<open>catch\<close>.
\<close>

definition onMessage :: "wss \<Rightarrow> nat \<Rightarrow> payload \<Rightarrow> wss \<times> console list" where
  "onMessage w socket rawMessage =
     (case JSON_parse rawMessage of
        None \<Rightarrow> (w, [ConsoleError ''Error processing message:''])
      | Some parsedMessage \<Rightarrow>
          (case getProp parsedMessage ''type'' of
             None \<Rightarrow> (w, [ConsoleError ''Error processing message:''])
           | Some t \<Rightarrow>
               if t = JStr ''offer'' \<or> t = JStr ''answer'' \<or> t = JStr ''candidate''
               then (w\<lparr>clients := forEach_send (clients w) socket parsedMessage\<rparr>, [])
               else (w, [ConsoleWarn ''Unhandled message type:'' t])))"


section \<open>The call controller: webrtc-voip/src/VoIPApp.jsx\<close>

subsection \<open>The persisted client identity\<close>

text \<open>\<^verbatim>\<open>Number.prototype.toString\<close> of a natural number: its decimal digits.\<close>

fun toString :: "nat \<Rightarrow> string" where
  "toString n =
     (if n < 10 then [''0123456789'' ! n]
      else toString (n div 10) @ [''0123456789'' ! (n mod 10)])"

declare toString.simps [simp del]

type_synonym localStorage = "string \<rightharpoonup> string"

text \<open>
  \<^verbatim>\<open>generateClientId\<close>; \<open>rnd\<close> is the value of
  \<^verbatim>\<open>Math.floor(1000 + Math.random() * 9000)\<close>. \<^verbatim>\<open>getItem\<close> gives \<^verbatim>\<open>null\<close> for a
  missing key, and \<^verbatim>\<open>!clientId\<close> holds of \<^verbatim>\<open>null\<close> and of the empty string.
\<close>

definition generateClientId :: "nat \<Rightarrow> localStorage \<Rightarrow> string \<times> localStorage" where
  "generateClientId rnd ls =
     (case ls ''voip-client-id'' of
        None \<Rightarrow> (toString rnd, ls(''voip-client-id'' \<mapsto> toString rnd))
      | Some clientId \<Rightarrow>
          if clientId = [] then (toString rnd, ls(''voip-client-id'' \<mapsto> toString rnd))
          else (clientId, ls))"

subsection \<open>State\<close>

datatype callState = Idle | Calling | Receiving | Connected

text \<open>
  An \<^verbatim>\<open>RTCPeerConnection\<close> as the controller sees it: the \<^verbatim>\<open>targetClientId\<close> its
  \<^verbatim>\<open>onicecandidate\<close> closure has captured, whether \<^verbatim>\<open>close()\<close> was called, the tracks
  added, the descriptions set and the remote candidates accepted.
\<close>

record peerConnection =
  pc_target :: jsval
  pc_closed :: bool
  pc_tracks :: "nat list"
  pc_localDescription :: "jsval option"
  pc_remoteDescription :: "jsval option"
  pc_candidates :: "jsval list"

text \<open>
  The browser's side of the asynchronous calls, which the controller does not decide:
  what \<^verbatim>\<open>createOffer\<close> and \<^verbatim>\<open>createAnswer\<close> resolve to (\<open>None\<close>: the promise
  rejects) and whether a call resolves. The failure of a constructor
  (\<^verbatim>\<open>new RTCSessionDescription(x)\<close>, \<^verbatim>\<open>new RTCIceCandidate(x)\<close>) is counted with the
  call that takes its result: both are in the same \<^verbatim>\<open>try\<close>.
\<close>

record collaborator =
  co_createOffer :: "peerConnection \<Rightarrow> jsval option"
  co_createAnswer :: "peerConnection \<Rightarrow> jsval option"
  co_setLocalDescription :: "peerConnection \<Rightarrow> jsval \<Rightarrow> bool"
  co_setRemoteDescription :: "peerConnection \<Rightarrow> jsval \<Rightarrow> bool"
  co_addIceCandidate :: "peerConnection \<Rightarrow> jsval \<Rightarrow> bool"
  co_addTrack :: "peerConnection \<Rightarrow> nat \<Rightarrow> bool"

text \<open>
  The state of the hooks \<^verbatim>\<open>useWebSocket\<close>, \<^verbatim>\<open>useWebRTC\<close> and of \<^verbatim>\<open>VoIPApp\<close>.
  \<open>socket\<close> is the state variable of that name: \<^verbatim>\<open>null\<close>, or a WebSocket in the given
  \<^verbatim>\<open>readyState\<close>. \<open>heap\<close> holds every \<^verbatim>\<open>RTCPeerConnection\<close> created so far and
  \<open>peerConnectionRef\<close> the index of \<^verbatim>\<open>peerConnectionRef.current\<close> in it. A stream is the
  list of its tracks.
\<close>

record controller =
  clientId :: string
  socket :: "readyState option"
  isConnected :: bool
  callState :: callState
  mediaReady :: bool
  targetClientId :: jsval
  localStream :: "nat list option"
  remoteStream :: "nat list option"
  connectionState :: string
  heap :: "peerConnection list"
  peerConnectionRef :: "nat option"

datatype effect =
    Send payload
  | Console console
  | SetTimeout nat
  | NewWebSocket

definition VoIPApp_init :: "string \<Rightarrow> controller" where
  "VoIPApp_init cid =
     \<lparr>clientId = cid, socket = None, isConnected = False, callState = Idle,
      mediaReady = False, targetClientId = JNull, localStream = None, remoteStream = None,
      connectionState = ''new'', heap = [], peerConnectionRef = None\<rparr>"

text \<open>Changing one object of the heap; an index outside the heap changes nothing.\<close>

definition updPc :: "nat \<Rightarrow> (peerConnection \<Rightarrow> peerConnection) \<Rightarrow> controller \<Rightarrow> controller" where
  "updPc i f s = (if i < length (heap s) then s\<lparr>heap := (heap s)[i := f (heap s ! i)]\<rparr> else s)"

text \<open>The connections that exist and were not closed.\<close>

definition liveLinks :: "controller \<Rightarrow> nat list" where
  "liveLinks s = filter (\<lambda>i. \<not> pc_closed (heap s ! i)) [0..<length (heap s)]"

subsection \<open>useWebSocket\<close>

text \<open>
  \<^verbatim>\<open>sendMessage\<close>: nothing is sent unless the socket is there and open.
\<close>

definition sendMessage :: "controller \<Rightarrow> (string \<times> jsval) list \<Rightarrow> effect list" where
  "sendMessage s message =
     (if socket s = Some OPEN
      then [Send (JSON_stringify (JObj (setProp message ''from'' (JStr (clientId s)))))]
      else [])"

text \<open>\<^verbatim>\<open>ws.onopen\<close>, \<^verbatim>\<open>ws.onclose\<close>, \<^verbatim>\<open>ws.onerror\<close> of \<^verbatim>\<open>createWebSocket\<close>.\<close>

definition ws_onopen :: "controller \<Rightarrow> controller \<times> effect list" where
  "ws_onopen s =
     (s\<lparr>isConnected := True, socket := Some OPEN\<rparr>,
      [Console (ConsoleLog ''WebSocket Connected''),
       Send (JSON_stringify (JObj [(''type'', JStr ''register''), (''clientId'', JStr (clientId s))]))])"

definition ws_onclose :: "controller \<Rightarrow> controller \<times> effect list" where
  "ws_onclose s =
     (s\<lparr>isConnected := False, socket := None\<rparr>,
      [Console (ConsoleLog ''WebSocket Disconnected''), SetTimeout 3000])"

definition ws_onerror :: "controller \<Rightarrow> controller \<times> effect list" where
  "ws_onerror s = (s\<lparr>isConnected := False\<rparr>, [Console (ConsoleError ''WebSocket error:'')])"

subsection \<open>useWebRTC\<close>

definition serializeIceCandidate :: "jsval \<Rightarrow> jsval" where
  "serializeIceCandidate candidate =
     (if \<not> truthy candidate then JNull
      else JObj [(''candidate'', propOf candidate ''candidate''),
                 (''sdpMid'', propOf candidate ''sdpMid''),
                 (''sdpMLineIndex'', propOf candidate ''sdpMLineIndex''),
                 (''usernameFragment'', propOf candidate ''usernameFragment'')])"

definition new_RTCPeerConnection :: "jsval \<Rightarrow> peerConnection" where
  "new_RTCPeerConnection target =
     \<lparr>pc_target = target, pc_closed = False, pc_tracks = [], pc_localDescription = None,
      pc_remoteDescription = None, pc_candidates = []\<rparr>"

text \<open>
  \<^verbatim>\<open>createPeerConnection\<close>: the connection in \<^verbatim>\<open>peerConnectionRef.current\<close>, if any, is
  closed; a new one is made and stored there. The result is the new state and the new
  connection (its index).
\<close>

definition createPeerConnection :: "controller \<Rightarrow> jsval \<Rightarrow> controller \<times> nat" where
  "createPeerConnection s target =
     (let s1 = (case peerConnectionRef s of
                  None \<Rightarrow> s
                | Some old \<Rightarrow> updPc old (\<lambda>p. p\<lparr>pc_closed := True\<rparr>) s);
          pc = length (heap s1)
      in (s1\<lparr>heap := heap s1 @ [new_RTCPeerConnection target], peerConnectionRef := Some pc\<rparr>, pc))"

text \<open>
  \<^verbatim>\<open>if (localStream) { localStream.getTracks().forEach(track => pc.addTrack(track,
  localStream)) } else { console.error(...) }\<close>, on a connection just made.
\<close>

definition addTracks :: "controller \<Rightarrow> nat \<Rightarrow> controller \<times> effect list" where
  "addTracks s pc =
     (case localStream s of
        Some tracks \<Rightarrow> (updPc pc (\<lambda>p. p\<lparr>pc_tracks := pc_tracks p @ tracks\<rparr>) s, [])
      | None \<Rightarrow> (s, [Console (ConsoleError ''No local stream available.'')]))"

text \<open>
  \<^verbatim>\<open>createOffer\<close> and \<^verbatim>\<open>handleOffer\<close>: the state, the console output and the value
  returned; \<open>None\<close> when an awaited call rejects, after which nothing more is done.
\<close>

definition createOffer ::
  "collaborator \<Rightarrow> controller \<Rightarrow> jsval \<Rightarrow> controller \<times> effect list \<times> jsval option" where
  "createOffer K s target =
     (let (s1, pc) = createPeerConnection s target;
          (s2, out) = addTracks s1 pc
      in case co_createOffer K (heap s2 ! pc) of
           None \<Rightarrow> (s2, out, None)
         | Some offer \<Rightarrow>
             if co_setLocalDescription K (heap s2 ! pc) offer
             then (updPc pc (\<lambda>p. p\<lparr>pc_localDescription := Some offer\<rparr>) s2, out, Some offer)
             else (s2, out, None))"

definition handleOffer ::
  "collaborator \<Rightarrow> controller \<Rightarrow> jsval \<Rightarrow> jsval \<Rightarrow> controller \<times> effect list \<times> jsval option" where
  "handleOffer K s offer fromClientId =
     (let (s1, pc) = createPeerConnection s fromClientId;
          (s2, out) = addTracks s1 pc
      in if \<not> co_setRemoteDescription K (heap s2 ! pc) offer then (s2, out, None)
         else
           let s3 = updPc pc (\<lambda>p. p\<lparr>pc_remoteDescription := Some offer\<rparr>) s2
           in case co_createAnswer K (heap s3 ! pc) of
                None \<Rightarrow> (s3, out, None)
              | Some answer \<Rightarrow>
                  if co_setLocalDescription K (heap s3 ! pc) answer
                  then (updPc pc (\<lambda>p. p\<lparr>pc_localDescription := Some answer\<rparr>) s3, out, Some answer)
                  else (s3, out, None))"

text \<open>
  \<^verbatim>\<open>addIceCandidate\<close>: guarded by \<^verbatim>\<open>peerConnectionRef.current && candidateData\<close>; a
  failure is caught here and only logged.
\<close>

definition addIceCandidate :: "collaborator \<Rightarrow> controller \<Rightarrow> jsval \<Rightarrow> controller \<times> effect list" where
  "addIceCandidate K s candidateData =
     (case peerConnectionRef s of
        None \<Rightarrow> (s, [])
      | Some pc \<Rightarrow>
          if \<not> truthy candidateData then (s, [])
          else if co_addIceCandidate K (heap s ! pc) candidateData
          then (updPc pc (\<lambda>p. p\<lparr>pc_candidates := pc_candidates p @ [candidateData]\<rparr>) s, [])
          else (s, [Console (ConsoleError ''Error adding ICE candidate:'')]))"

text \<open>The callbacks \<^verbatim>\<open>createPeerConnection\<close> installs on connection \<open>pc\<close>.\<close>

definition pc_onicecandidate :: "controller \<Rightarrow> nat \<Rightarrow> jsval \<Rightarrow> controller \<times> effect list" where
  "pc_onicecandidate s pc candidate =
     (if truthy candidate \<and> pc < length (heap s)
      then (s, Console (ConsoleLog ''Sending ICE candidate:'') #
               sendMessage s [(''type'', JStr ''ice-candidate''),
                              (''candidate'', serializeIceCandidate candidate),
                              (''target'', pc_target (heap s ! pc))])
      else (s, []))"

definition pc_ontrack :: "controller \<Rightarrow> nat list \<Rightarrow> controller \<times> effect list" where
  "pc_ontrack s stream =
     (s\<lparr>remoteStream := Some stream, connectionState := ''connected''\<rparr>,
      [Console (ConsoleLog ''Remote stream received:'')])"

definition pc_onconnectionstatechange :: "controller \<Rightarrow> string \<Rightarrow> controller \<times> effect list" where
  "pc_onconnectionstatechange s st =
     (s\<lparr>connectionState := st\<rparr>, [Console (ConsoleLog ''Connection state:'')])"

subsection \<open>VoIPApp\<close>

text \<open>The \<^verbatim>\<open>catch\<close> of \<^verbatim>\<open>handleWebSocketMessage\<close>.\<close>

definition caught :: "controller \<Rightarrow> effect list \<Rightarrow> controller \<times> effect list" where
  "caught s out =
     (s\<lparr>callState := Idle\<rparr>, out @ [Console (ConsoleError ''Error handling WebSocket message:'')])"

text \<open>
  \<^verbatim>\<open>if (message.target && message.target !== clientId) return\<close>: whether the message is
  dropped.
\<close>

definition notForMe :: "controller \<Rightarrow> jsval \<Rightarrow> bool" where
  "notForMe s message =
     (truthy (propOf message ''target'') \<and> propOf message ''target'' \<noteq> JStr (clientId s))"

text \<open>
  \<^verbatim>\<open>handleWebSocketMessage\<close>. \<^verbatim>\<open>JSON.parse\<close> and the first read of a property of the
  message can throw; the \<^verbatim>\<open>switch\<close> has no \<^verbatim>\<open>default\<close>. In the \<^verbatim>\<open>answer\<close> case
  \<^verbatim>\<open>peerConnectionRef.current?.setRemoteDescription(...)\<close> does nothing when there is no
  connection.
\<close>

definition handleWebSocketMessage ::
  "collaborator \<Rightarrow> controller \<Rightarrow> payload \<Rightarrow> controller \<times> effect list" where
  "handleWebSocketMessage K s data =
     (case JSON_parse data of
        None \<Rightarrow> caught s []
      | Some message \<Rightarrow>
          (case getProp message ''target'' of
             None \<Rightarrow> caught s []
           | Some target \<Rightarrow>
               if notForMe s message then (s, [])
               else if propOf message ''type'' = JStr ''register''
               then (s, [Console (ConsoleLog ''Registered client:'')])
               else if propOf message ''type'' = JStr ''offer''
               then
                 (let s1 = s\<lparr>callState := Receiving, targetClientId := propOf message ''from''\<rparr>;
                      (s2, out, answer) =
                         handleOffer K s1 (propOf message ''offer'') (propOf message ''from'')
                  in case answer of
                       None \<Rightarrow> caught s2 out
                     | Some a \<Rightarrow>
                         (s2, out @ sendMessage s2 [(''type'', JStr ''answer''), (''answer'', a),
                                                    (''target'', propOf message ''from'')]))
               else if propOf message ''type'' = JStr ''answer''
               then
                 (let s1 = s\<lparr>callState := Connected\<rparr>
                  in case peerConnectionRef s1 of
                       None \<Rightarrow> (s1, [])
                     | Some pc \<Rightarrow>
                         if co_setRemoteDescription K (heap s1 ! pc) (propOf message ''answer'')
                         then (updPc pc (\<lambda>p. p\<lparr>pc_remoteDescription :=
                                                   Some (propOf message ''answer'')\<rparr>) s1, [])
                         else caught s1 [])
               else if propOf message ''type'' = JStr ''ice-candidate''
               then addIceCandidate K s (propOf message ''candidate'')
               else (s, [])))"

text \<open>\<^verbatim>\<open>initializeMedia\<close>, with what \<^verbatim>\<open>getUserMedia\<close> resolved to (\<open>None\<close>: it rejected).\<close>

definition initializeMedia :: "controller \<Rightarrow> nat list option \<Rightarrow> controller \<times> effect list" where
  "initializeMedia s media =
     (case media of
        Some stream \<Rightarrow> (s\<lparr>localStream := Some stream, mediaReady := True\<rparr>, [])
      | None \<Rightarrow> (s\<lparr>mediaReady := False\<rparr>,
                 [Console (ConsoleError ''Error accessing media devices:''),
                  Console (ConsoleError ''Failed to get local media'')]))"

definition initiateCall :: "collaborator \<Rightarrow> controller \<Rightarrow> controller \<times> effect list" where
  "initiateCall K s =
     (let s1 = s\<lparr>callState := Calling\<rparr>;
          (s2, out, offer) = createOffer K s1 (targetClientId s1)
      in case offer of
           None \<Rightarrow> (s2\<lparr>callState := Idle\<rparr>, out @ [Console (ConsoleError ''Call initiation failed:'')])
         | Some off \<Rightarrow>
             (s2, out @ sendMessage s2 [(''type'', JStr ''offer''), (''offer'', off),
                                        (''target'', targetClientId s2)]))"

definition isCallButtonDisabled :: "controller \<Rightarrow> bool" where
  "isCallButtonDisabled s =
     (\<not> isConnected s \<or> \<not> mediaReady s \<or> callState s \<noteq> Idle \<or> \<not> truthy (targetClientId s))"

subsection \<open>Events\<close>

text \<open>
  Every handler through which the controller's state changes. Each runs to its end before
  the next starts. A click on the disabled button does not reach \<^verbatim>\<open>initiateCall\<close>.
  Two events are taken more widely than the component takes them: a \<open>Message\<close> is handled
  whatever \<open>socket\<close> is, though the listener is attached only while there is a socket, and
  \<open>IceCandidate\<close> sends through the current socket, though the callback keeps the
  \<^verbatim>\<open>sendMessage\<close> of the render that made the connection.
\<close>

datatype event =
    WsOpen
  | WsClose
  | WsError
  | TimerFired
  | Message payload
  | MediaResult "nat list option"
  | TargetInput string
  | ClickStartCall
  | IceCandidate nat jsval
  | Track "nat list"
  | ConnectionStateChange string

fun step :: "collaborator \<Rightarrow> controller \<Rightarrow> event \<Rightarrow> controller \<times> effect list" where
  "step K s WsOpen = ws_onopen s"
| "step K s WsClose = ws_onclose s"
| "step K s WsError = ws_onerror s"
| "step K s TimerFired = (s, [NewWebSocket])"
| "step K s (Message data) = handleWebSocketMessage K s data"
| "step K s (MediaResult media) = initializeMedia s media"
| "step K s (TargetInput v) = (s\<lparr>targetClientId := JStr v\<rparr>, [])"
| "step K s ClickStartCall = (if isCallButtonDisabled s then (s, []) else initiateCall K s)"
| "step K s (IceCandidate pc candidate) = pc_onicecandidate s pc candidate"
| "step K s (Track stream) = pc_ontrack s stream"
| "step K s (ConnectionStateChange st) = pc_onconnectionstatechange s st"

fun run :: "collaborator \<Rightarrow> controller \<Rightarrow> event list \<Rightarrow> controller \<times> effect list" where
  "run K s [] = (s, [])"
| "run K s (ev # evs) =
     (let (s1, out1) = step K s ev; (s2, out2) = run K s1 evs in (s2, out1 @ out2))"

section \<open>The earlier hook: webrtc-voip/src/webrtc.js\<close>

text \<open>
  The file \<^verbatim>\<open>webrtc.js\<close> holds an earlier \<^verbatim>\<open>useWebRTC\<close>, which no other file imports.
  Its \<^verbatim>\<open>createPeerConnection\<close> takes no target, closes nothing and stores nothing; its
  \<^verbatim>\<open>createOffer\<close> and \<^verbatim>\<open>handleOffer\<close> make a connection only when
  \<^verbatim>\<open>peerConnectionRef.current\<close> is empty and go on with the one that is there otherwise.
  On a connection that is used again \<^verbatim>\<open>addTrack\<close> can throw (the track is already
  there), which \<open>co_addTrack\<close> decides; the tracks added before the throw stay. In
  \<^verbatim>\<open>VoIPApp.jsx\<close> the tracks go to a connection just made, where \<^verbatim>\<open>addTrack\<close> does not
  throw.
\<close>

definition webrtc_createPeerConnection :: "controller \<Rightarrow> controller \<times> nat" where
  "webrtc_createPeerConnection s =
     (s\<lparr>heap := heap s @ [new_RTCPeerConnection JUndefined]\<rparr>, length (heap s))"

text \<open>\<^verbatim>\<open>if (!peerConnectionRef.current) { peerConnectionRef.current = createPeerConnection(); }\<close>\<close>

definition webrtc_ensureConnection :: "controller \<Rightarrow> controller \<times> nat" where
  "webrtc_ensureConnection s =
     (case peerConnectionRef s of
        Some pc \<Rightarrow> (s, pc)
      | None \<Rightarrow> (let (s1, pc) = webrtc_createPeerConnection s
                 in (s1\<lparr>peerConnectionRef := Some pc\<rparr>, pc)))"

fun webrtc_addTracks :: "collaborator \<Rightarrow> controller \<Rightarrow> nat \<Rightarrow> nat list \<Rightarrow> controller \<times> bool" where
  "webrtc_addTracks K s pc [] = (s, True)"
| "webrtc_addTracks K s pc (track # tracks) =
     (if co_addTrack K (heap s ! pc) track
      then webrtc_addTracks K (updPc pc (\<lambda>p. p\<lparr>pc_tracks := pc_tracks p @ [track]\<rparr>) s) pc tracks
      else (s, False))"

definition webrtc_createOffer :: "collaborator \<Rightarrow> controller \<Rightarrow> controller \<times> jsval option" where
  "webrtc_createOffer K s =
     (let (s1, pc) = webrtc_ensureConnection s;
          (s2, added) = (case localStream s1 of
                           None \<Rightarrow> (s1, True)
                         | Some tracks \<Rightarrow> webrtc_addTracks K s1 pc tracks)
      in if \<not> added then (s2, None)
         else case co_createOffer K (heap s2 ! pc) of
                None \<Rightarrow> (s2, None)
              | Some offer \<Rightarrow>
                  if co_setLocalDescription K (heap s2 ! pc) offer
                  then (updPc pc (\<lambda>p. p\<lparr>pc_localDescription := Some offer\<rparr>) s2, Some offer)
                  else (s2, None))"

definition webrtc_handleOffer :: "collaborator \<Rightarrow> controller \<Rightarrow> jsval \<Rightarrow> controller \<times> jsval option" where
  "webrtc_handleOffer K s offer =
     (let (s1, pc) = webrtc_ensureConnection s;
          (s2, added) = (case localStream s1 of
                           None \<Rightarrow> (s1, True)
                         | Some tracks \<Rightarrow> webrtc_addTracks K s1 pc tracks)
      in if \<not> added then (s2, None)
         else if \<not> co_setRemoteDescription K (heap s2 ! pc) offer then (s2, None)
         else
           let s3 = updPc pc (\<lambda>p. p\<lparr>pc_remoteDescription := Some offer\<rparr>) s2
           in case co_createAnswer K (heap s3 ! pc) of
                None \<Rightarrow> (s3, None)
              | Some answer \<Rightarrow>
                  if co_setLocalDescription K (heap s3 ! pc) answer
                  then (updPc pc (\<lambda>p. p\<lparr>pc_localDescription := Some answer\<rparr>) s3, Some answer)
                  else (s3, None))"

section \<open>Properties of states and outputs\<close>

text \<open>
  The invariant of the connections: a connection that is not closed is the one in
  \<^verbatim>\<open>peerConnectionRef.current\<close>, and that reference points into the heap.
\<close>

definition linkInv :: "controller \<Rightarrow> bool" where
  "linkInv s =
     (set (liveLinks s) \<subseteq> set_option (peerConnectionRef s) \<and>
      (case peerConnectionRef s of None \<Rightarrow> True | Some pc \<Rightarrow> pc < length (heap s)))"

text \<open>Two states with the same reference and the same connections closed.\<close>

definition sameLinks :: "controller \<Rightarrow> controller \<Rightarrow> bool" where
  "sameLinks s s' =
     (map pc_closed (heap s') = map pc_closed (heap s) \<and>
      peerConnectionRef s' = peerConnectionRef s)"

text \<open>
  The connection \<^verbatim>\<open>createPeerConnection\<close> makes for \<open>target\<close> once the local tracks are on
  it: the connection the browser is first asked about in \<^verbatim>\<open>handleOffer\<close>.
\<close>

definition freshLink :: "controller \<Rightarrow> jsval \<Rightarrow> peerConnection" where
  "freshLink s target =
     (new_RTCPeerConnection target)
       \<lparr>pc_tracks := (case localStream s of None \<Rightarrow> [] | Some tracks \<Rightarrow> tracks)\<rparr>"

text \<open>
  An output that is a \<^verbatim>\<open>register\<close> message carries the identity \<open>cid\<close>; any other
  output passes.
\<close>

definition registersAs :: "string \<Rightarrow> effect \<Rightarrow> bool" where
  "registersAs cid e =
     (case e of
        Send (JSON m) \<Rightarrow> propOf m ''type'' = JStr ''register'' \<longrightarrow> propOf m ''clientId'' = JStr cid
      | _ \<Rightarrow> True)"

section \<open>Example inputs\<close>

definition three_clients :: wss where
  "three_clients =
     \<lparr>clients = [\<lparr>sock = 0, readyState = OPEN, outbox = []\<rparr>,
                 \<lparr>sock = 1, readyState = OPEN, outbox = []\<rparr>,
                 \<lparr>sock = 2, readyState = CLOSING, outbox = []\<rparr>]\<rparr>"

definition ice_msg :: jsval where
  "ice_msg =
     JObj [(''type'', JStr ''ice-candidate''),
           (''candidate'', JObj [(''candidate'', JStr ''candidate:1 1 udp 1 10.0.0.1 5000 typ host''),
                                 (''sdpMid'', JStr ''0''), (''sdpMLineIndex'', JNum 0),
                                 (''usernameFragment'', JNull)]),
           (''target'', JStr ''2222''), (''from'', JStr ''1111'')]"

definition candidate_msg :: jsval where
  "candidate_msg =
     JObj [(''type'', JStr ''candidate''),
           (''candidate'', JObj [(''candidate'', JStr ''candidate:1 1 udp 1 10.0.0.1 5000 typ host''),
                                 (''sdpMid'', JStr ''0''), (''sdpMLineIndex'', JNum 0),
                                 (''usernameFragment'', JNull)]),
           (''target'', JStr ''2222''), (''from'', JStr ''1111'')]"

definition register_msg :: jsval where
  "register_msg = JObj [(''type'', JStr ''register''), (''clientId'', JStr ''1111'')]"

definition bogus_msg :: jsval where
  "bogus_msg = JObj [(''type'', JStr ''bogus''), (''from'', JStr ''1111'')]"

definition sdp_offer :: jsval where
  "sdp_offer = JObj [(''type'', JStr ''offer''), (''sdp'', JStr ''v=0'')]"

definition sdp_answer :: jsval where
  "sdp_answer = JObj [(''type'', JStr ''answer''), (''sdp'', JStr ''v=0'')]"

definition K_ok :: collaborator where
  "K_ok = \<lparr>co_createOffer = (\<lambda>p. Some sdp_offer),
           co_createAnswer = (\<lambda>p. Some sdp_answer),
           co_setLocalDescription = (\<lambda>p v. True),
           co_setRemoteDescription = (\<lambda>p v. True),
           co_addIceCandidate = (\<lambda>p v. propOf v ''candidate'' \<noteq> JUndefined),
           co_addTrack = (\<lambda>p t. True)\<rparr>"

definition answer_msg :: jsval where
  "answer_msg = JObj [(''type'', JStr ''answer''), (''answer'', sdp_answer),
                      (''target'', JStr ''1111''), (''from'', JStr ''2222'')]"

definition offer_msg :: jsval where
  "offer_msg = JObj [(''type'', JStr ''offer''), (''offer'', sdp_offer),
                     (''target'', JStr ''1111''), (''from'', JStr ''2222'')]"

definition ice_msg_to_1111 :: jsval where
  "ice_msg_to_1111 =
     JObj [(''type'', JStr ''ice-candidate''),
           (''candidate'', JObj [(''candidate'', JStr ''candidate:1 1 udp 1 10.0.0.1 5000 typ host''),
                                 (''sdpMid'', JStr ''0''), (''sdpMLineIndex'', JNum 0)]),
           (''target'', JStr ''1111''), (''from'', JStr ''2222'')]"

definition ice_msg_malformed :: jsval where
  "ice_msg_malformed =
     JObj [(''type'', JStr ''ice-candidate''), (''candidate'', JStr ''garbage''),
           (''target'', JStr ''1111''), (''from'', JStr ''2222'')]"

definition ice_msg_empty :: jsval where
  "ice_msg_empty =
     JObj [(''type'', JStr ''ice-candidate''), (''candidate'', JNull),
           (''target'', JStr ''1111''), (''from'', JStr ''2222'')]"

definition in_call :: controller where
  "in_call = fst (step K_ok ((VoIPApp_init ''1111'')\<lparr>socket := Some OPEN\<rparr>) (Message (JSON offer_msg)))"

definition offer_msg_empty_target :: jsval where
  "offer_msg_empty_target = JObj [(''type'', JStr ''offer''), (''offer'', sdp_offer),
                     (''target'', JStr []), (''from'', JStr ''2222'')]"

definition offer_msg_other_target :: jsval where
  "offer_msg_other_target = JObj [(''type'', JStr ''offer''), (''offer'', sdp_offer),
                     (''target'', JStr ''3333''), (''from'', JStr ''2222'')]"

text \<open>
  A browser that rejects a description without \<^verbatim>\<open>sdp\<close>, an offer it rejects, and the
  state \<open>in_call\<close> with its socket closing.
\<close>

definition K_strict :: collaborator where
  "K_strict = \<lparr>co_createOffer = (\<lambda>p. Some sdp_offer),
           co_createAnswer = (\<lambda>p. Some sdp_answer),
           co_setLocalDescription = (\<lambda>p v. propOf v ''sdp'' \<noteq> JUndefined),
           co_setRemoteDescription = (\<lambda>p v. propOf v ''sdp'' \<noteq> JUndefined),
           co_addIceCandidate = (\<lambda>p v. propOf v ''candidate'' \<noteq> JUndefined),
           co_addTrack = (\<lambda>p t. True)\<rparr>"

definition offer_msg_bad :: jsval where
  "offer_msg_bad = JObj [(''type'', JStr ''offer''), (''offer'', JStr ''garbage''),
                         (''target'', JStr ''1111''), (''from'', JStr ''2222'')]"

definition in_call_closing :: controller where
  "in_call_closing = in_call\<lparr>socket := Some CLOSING\<rparr>"

section \<open>The relay forwards by type and excludes the sender\<close>

lemma forEach_send_length: "length (forEach_send cs k m) = length cs"
  by (simp add: forEach_send_def)

lemma forEach_send_nth:
  "i < length cs \<Longrightarrow> forEach_send cs k m ! i =
     (if sock (cs ! i) \<noteq> k \<and> readyState (cs ! i) = OPEN
      then (cs ! i)\<lparr>outbox := outbox (cs ! i) @ [JSON_stringify m]\<rparr> else cs ! i)"
  by (simp add: forEach_send_def)

text \<open>
  C6. When the relay forwards a message (its type is one the \<^verbatim>\<open>switch\<close> forwards), nothing
  is written to the console, no client is added, removed or changes its \<^verbatim>\<open>readyState\<close>, and
  the message is handed to exactly the clients that are not the sender and are \<open>OPEN\<close>: the
  sender's outbox and the outbox of a client that is not open stay as they were.
\<close>

theorem relay_broadcast_recipients:
  assumes "JSON_parse rawMessage = Some m"
    and "getProp m ''type'' = Some t"
    and "t = JStr ''offer'' \<or> t = JStr ''answer'' \<or> t = JStr ''candidate''"
  shows "snd (onMessage w sender rawMessage) = [] \<and>
         length (clients (fst (onMessage w sender rawMessage))) = length (clients w) \<and>
         (\<forall>i < length (clients w).
            sock (clients (fst (onMessage w sender rawMessage)) ! i) = sock (clients w ! i) \<and>
            readyState (clients (fst (onMessage w sender rawMessage)) ! i) = readyState (clients w ! i) \<and>
            (sock (clients w ! i) = sender \<longrightarrow>
               outbox (clients (fst (onMessage w sender rawMessage)) ! i) = outbox (clients w ! i)) \<and>
            (readyState (clients w ! i) \<noteq> OPEN \<longrightarrow>
               outbox (clients (fst (onMessage w sender rawMessage)) ! i) = outbox (clients w ! i)) \<and>
            (sock (clients w ! i) \<noteq> sender \<and> readyState (clients w ! i) = OPEN \<longrightarrow>
               outbox (clients (fst (onMessage w sender rawMessage)) ! i) =
                 outbox (clients w ! i) @ [JSON_stringify m]))"
proof -
  have r: "onMessage w sender rawMessage = (w\<lparr>clients := forEach_send (clients w) sender m\<rparr>, [])"
    using assms by (auto simp add: onMessage_def)
  show ?thesis
    unfolding r by (simp add: forEach_send_length forEach_send_nth)
qed

theorem relay_broadcast_recipients_witness:
  "JSON_parse (JSON offer_msg) = Some offer_msg \<and>
   getProp offer_msg ''type'' = Some (JStr ''offer'') \<and>
   snd (onMessage three_clients 0 (JSON offer_msg)) = [] \<and>
   outbox (clients (fst (onMessage three_clients 0 (JSON offer_msg))) ! 0) = [] \<and>
   outbox (clients (fst (onMessage three_clients 0 (JSON offer_msg))) ! 1) =
     [JSON_stringify offer_msg] \<and>
   outbox (clients (fst (onMessage three_clients 0 (JSON offer_msg))) ! 2) = []"
proof -
  have p: "JSON_parse (JSON offer_msg) = Some offer_msg" by simp
  have t: "getProp offer_msg ''type'' = Some (JStr ''offer'')" by (simp add: offer_msg_def)
  have c: "JStr ''offer'' = JStr ''offer'' \<or> JStr ''offer'' = JStr ''answer'' \<or>
           JStr ''offer'' = JStr ''candidate''" by simp
  show ?thesis
    using relay_broadcast_recipients [OF p t c, of three_clients 0] p t
    by (simp add: three_clients_def)
qed

text \<open>
  Where the relay discards: a text that is not JSON, a text that parses to \<^verbatim>\<open>null\<close>, and a
  message whose type is none of those the \<^verbatim>\<open>switch\<close> forwards leave the relay as it was
  and write one line to the console. Whatever the text, no client is removed and no
  \<^verbatim>\<open>readyState\<close> changes.
\<close>

theorem relay_malformed_input:
  "(JSON_parse rawMessage = None \<longrightarrow>
      onMessage w sender rawMessage = (w, [ConsoleError ''Error processing message:''])) \<and>
   (\<forall>m. JSON_parse rawMessage = Some m \<and> getProp m ''type'' = None \<longrightarrow>
      onMessage w sender rawMessage = (w, [ConsoleError ''Error processing message:''])) \<and>
   (\<forall>m t. JSON_parse rawMessage = Some m \<and> getProp m ''type'' = Some t \<and>
           t \<noteq> JStr ''offer'' \<and> t \<noteq> JStr ''answer'' \<and> t \<noteq> JStr ''candidate'' \<longrightarrow>
      onMessage w sender rawMessage = (w, [ConsoleWarn ''Unhandled message type:'' t])) \<and>
   map sock (clients (fst (onMessage w sender rawMessage))) = map sock (clients w) \<and>
   map readyState (clients (fst (onMessage w sender rawMessage))) = map readyState (clients w)"
  by (auto simp add: onMessage_def forEach_send_def split: option.splits)

theorem relay_malformed_input_witness:
  "JSON_parse NotJSON = None \<and>
   onMessage three_clients 0 NotJSON =
     (three_clients, [ConsoleError ''Error processing message:'']) \<and>
   JSON_parse (JSON bogus_msg) = Some bogus_msg \<and>
   getProp bogus_msg ''type'' = Some (JStr ''bogus'') \<and>
   onMessage three_clients 0 (JSON bogus_msg) =
     (three_clients, [ConsoleWarn ''Unhandled message type:'' (JStr ''bogus'')])"
  using relay_malformed_input [of NotJSON three_clients 0]
    relay_malformed_input [of "JSON bogus_msg" three_clients 0]
  by (simp add: bogus_msg_def)

text \<open>
  C7. A message whose type is \<^verbatim>\<open>candidate\<close>, a type the protocol does not have (its types
  are \<^verbatim>\<open>register\<close>, \<^verbatim>\<open>offer\<close>, \<^verbatim>\<open>answer\<close> and \<^verbatim>\<open>ice-candidate\<close>), is not logged
  and discarded: the relay writes nothing to the console and hands the message to the other
  open client, whose outbox changes. No client is removed and no \<^verbatim>\<open>readyState\<close> changes.
\<close>

theorem relay_forwards_candidate_type:
  "JSON_parse (JSON candidate_msg) = Some candidate_msg \<and>
   getProp candidate_msg ''type'' = Some (JStr ''candidate'') \<and>
   snd (onMessage three_clients 0 (JSON candidate_msg)) = [] \<and>
   fst (onMessage three_clients 0 (JSON candidate_msg)) \<noteq> three_clients \<and>
   outbox (clients three_clients ! 1) = [] \<and>
   outbox (clients (fst (onMessage three_clients 0 (JSON candidate_msg))) ! 1) =
     [JSON candidate_msg] \<and>
   map sock (clients (fst (onMessage three_clients 0 (JSON candidate_msg)))) =
     map sock (clients three_clients) \<and>
   map readyState (clients (fst (onMessage three_clients 0 (JSON candidate_msg)))) =
     map readyState (clients three_clients)"
  by (simp add: onMessage_def candidate_msg_def forEach_send_def three_clients_def
      JSON_stringify_def)

text \<open>
  C1. The relay does not forward a message of type \<^verbatim>\<open>ice-candidate\<close>: its \<^verbatim>\<open>switch\<close>
  names \<^verbatim>\<open>candidate\<close>, a type no client sends, so the candidate a client sends ends in the
  \<^verbatim>\<open>default\<close> branch, is logged as unhandled and reaches no other client. The same
  message under the type \<^verbatim>\<open>candidate\<close> reaches the other open client.
\<close>

theorem relay_drops_ice_candidate:
  "onMessage three_clients 0 (JSON ice_msg) =
     (three_clients, [ConsoleWarn ''Unhandled message type:'' (JStr ''ice-candidate'')]) \<and>
   outbox (clients (fst (onMessage three_clients 0 (JSON ice_msg))) ! 1) = [] \<and>
   outbox (clients (fst (onMessage three_clients 0 (JSON candidate_msg))) ! 1) =
     [JSON candidate_msg]"
  by (simp add: onMessage_def ice_msg_def candidate_msg_def forEach_send_def three_clients_def
      JSON_stringify_def)

text \<open>
  C2, as the code has it. A \<^verbatim>\<open>register\<close> message is an unhandled type for the relay: it
  is logged as such, nothing is forwarded and the relay, which keeps no table of identities,
  is unchanged.
\<close>

theorem relay_register_unhandled:
  assumes "JSON_parse rawMessage = Some m" and "getProp m ''type'' = Some (JStr ''register'')"
  shows "onMessage w sender rawMessage = (w, [ConsoleWarn ''Unhandled message type:'' (JStr ''register'')])"
  using assms by (simp add: onMessage_def)

theorem relay_register_unhandled_witness:
  "JSON_parse (JSON register_msg) = Some register_msg \<and>
   getProp register_msg ''type'' = Some (JStr ''register'') \<and>
   onMessage three_clients 1 (JSON register_msg) =
     (three_clients, [ConsoleWarn ''Unhandled message type:'' (JStr ''register'')])"
  using relay_register_unhandled [of "JSON register_msg" register_msg three_clients 1]
  by (simp add: register_msg_def)

theorem relay_register_not_recorded:
  "fst (onMessage three_clients 0 (JSON register_msg)) = three_clients \<and>
   snd (onMessage three_clients 0 (JSON register_msg)) =
     [ConsoleWarn ''Unhandled message type:'' (JStr ''register'')]"
  by (simp add: onMessage_def register_msg_def)

section \<open>One live connection\<close>

lemma updPc_frame [simp]:
  "peerConnectionRef (updPc i f s) = peerConnectionRef s"
  "length (heap (updPc i f s)) = length (heap s)"
  "callState (updPc i f s) = callState s"
  "targetClientId (updPc i f s) = targetClientId s"
  "clientId (updPc i f s) = clientId s"
  "socket (updPc i f s) = socket s"
  "localStream (updPc i f s) = localStream s"
  by (simp_all add: updPc_def)

lemma updPc_closed:
  "(\<And>p. pc_closed (f p) = pc_closed p) \<Longrightarrow> map pc_closed (heap (updPc i f s)) = map pc_closed (heap s)"
  by (simp add: updPc_def map_update list_update_same_conv)

lemma liveLinks_flags:
  "liveLinks s = filter (\<lambda>i. \<not> map pc_closed (heap s) ! i) [0..<length (map pc_closed (heap s))]"
  unfolding liveLinks_def by (rule filter_cong) auto

lemma linkInv_cong:
  "map pc_closed (heap s') = map pc_closed (heap s) \<Longrightarrow> peerConnectionRef s' = peerConnectionRef s
   \<Longrightarrow> linkInv s' = linkInv s"
  using map_eq_imp_length_eq [of pc_closed "heap s'" pc_closed "heap s"]
  by (simp add: linkInv_def liveLinks_flags split: option.splits)

lemma linkInv_live_le: "linkInv s \<Longrightarrow> length (liveLinks s) \<le> 1"
proof -
  assume i: "linkInv s"
  have d: "distinct (liveLinks s)" by (simp add: liveLinks_def)
  have "card (set (liveLinks s)) \<le> card (set_option (peerConnectionRef s))"
    using i by (intro card_mono) (auto simp add: linkInv_def)
  also have "\<dots> \<le> 1" by (cases "peerConnectionRef s") auto
  finally show ?thesis using d by (simp add: distinct_card)
qed

lemma createPeerConnection_links:
  assumes "linkInv s"
  shows "liveLinks (fst (createPeerConnection s t)) = [snd (createPeerConnection s t)]"
    and "peerConnectionRef (fst (createPeerConnection s t)) = Some (snd (createPeerConnection s t))"
    and "snd (createPeerConnection s t) = length (heap s)"
    and "length (heap (fst (createPeerConnection s t))) = Suc (length (heap s))"
    and "linkInv (fst (createPeerConnection s t))"
proof -
  let ?r = "createPeerConnection s t"
  have a: "snd ?r = length (heap s)"
    by (simp add: createPeerConnection_def Let_def split: option.splits)
  have b: "peerConnectionRef (fst ?r) = Some (length (heap s))"
    by (simp add: createPeerConnection_def Let_def split: option.splits)
  have c: "map pc_closed (heap (fst ?r)) =
             (case peerConnectionRef s of None \<Rightarrow> map pc_closed (heap s)
              | Some old \<Rightarrow> (map pc_closed (heap s))[old := True]) @ [False]"
    by (simp add: createPeerConnection_def Let_def updPc_def new_RTCPeerConnection_def map_update
          list_update_beyond split: option.splits)
  have d: "\<forall>i < length (heap s). (case peerConnectionRef s of None \<Rightarrow> map pc_closed (heap s)
              | Some old \<Rightarrow> (map pc_closed (heap s))[old := True]) ! i"
    using assms
    by (auto simp add: linkInv_def liveLinks_def nth_list_update split: option.splits)
  have len: "length (heap (fst ?r)) = Suc (length (heap s))"
    using arg_cong [OF c, of length] by (simp split: option.splits)
  have e: "liveLinks (fst ?r) = [length (heap s)]"
    unfolding liveLinks_flags c using d
    by (auto simp add: nth_append filter_empty_conv split: option.splits)
  show "liveLinks (fst ?r) = [snd ?r]" using e a by simp
  show "peerConnectionRef (fst ?r) = Some (snd ?r)" using a b by simp
  show "snd ?r = length (heap s)" by (rule a)
  show "length (heap (fst ?r)) = Suc (length (heap s))" by (rule len)
  show "linkInv (fst ?r)" using e b len by (simp add: linkInv_def)
qed


lemma sameLinks_refl [simp]: "sameLinks s s"
  by (simp add: sameLinks_def)

lemma sameLinks_trans: "sameLinks a b \<Longrightarrow> sameLinks b c \<Longrightarrow> sameLinks a c"
  by (simp add: sameLinks_def)

lemma sameLinks_updPc:
  "(\<And>p. pc_closed (f p) = pc_closed p) \<Longrightarrow> sameLinks s (updPc i f s)"
  by (simp add: sameLinks_def updPc_closed)

lemma sameLinks_linkInv: "sameLinks s s' \<Longrightarrow> linkInv s' = linkInv s"
  unfolding sameLinks_def by (rule linkInv_cong) simp_all

lemma sameLinks_liveLinks: "sameLinks s s' \<Longrightarrow> liveLinks s' = liveLinks s"
  by (simp add: sameLinks_def liveLinks_flags)

lemma addTracks_links: "sameLinks s (fst (addTracks s pc))"
  by (simp add: addTracks_def sameLinks_updPc split: option.splits)

lemma createOffer_links:
  "sameLinks (fst (createPeerConnection s t)) (fst (createOffer K s t))"
proof -
  obtain s1 pc where r: "createPeerConnection s t = (s1, pc)" by (cases "createPeerConnection s t")
  obtain s2 out where a: "addTracks s1 pc = (s2, out)" by (cases "addTracks s1 pc")
  have 1: "sameLinks s1 s2" using addTracks_links [of s1 pc] a by simp
  have 2: "sameLinks s2 (fst (createOffer K s t))"
    by (simp add: createOffer_def r a sameLinks_updPc split: option.splits)
  show ?thesis using sameLinks_trans [OF 1 2] r by simp
qed

lemma handleOffer_links:
  "sameLinks (fst (createPeerConnection s t)) (fst (handleOffer K s off t))"
proof -
  obtain s1 pc where r: "createPeerConnection s t = (s1, pc)" by (cases "createPeerConnection s t")
  obtain s2 out where a: "addTracks s1 pc = (s2, out)" by (cases "addTracks s1 pc")
  have 1: "sameLinks s1 s2" using addTracks_links [of s1 pc] a by simp
  let ?s3 = "updPc pc (\<lambda>p. p\<lparr>pc_remoteDescription := Some off\<rparr>) s2"
  have 3: "sameLinks s2 ?s3" by (simp add: sameLinks_updPc)
  have 4: "sameLinks ?s3 (updPc pc g ?s3)" if "\<And>p. pc_closed (g p) = pc_closed p" for g
    using that by (rule sameLinks_updPc)
  have 2: "sameLinks s2 (fst (handleOffer K s off t))"
    using 3 sameLinks_trans [OF 3 4]
    by (simp add: handleOffer_def r a Let_def split: option.splits)
  show ?thesis using sameLinks_trans [OF 1 2] r by simp
qed

lemma addIceCandidate_links: "sameLinks s (fst (addIceCandidate K s c))"
  by (simp add: addIceCandidate_def sameLinks_updPc split: option.splits)

lemma field_update_links [simp]:
  "sameLinks s (s\<lparr>callState := c\<rparr>)"
  "sameLinks s (s\<lparr>targetClientId := t\<rparr>)"
  "sameLinks s (s\<lparr>callState := c, targetClientId := t\<rparr>)"
  by (simp_all add: sameLinks_def)

lemma createOffer_linkInv:
  assumes "linkInv s"
  shows "linkInv (fst (createOffer K s t))"
    and "liveLinks (fst (createOffer K s t)) = [length (heap s)]"
  using sameLinks_linkInv [OF createOffer_links [of s t K]]
    sameLinks_liveLinks [OF createOffer_links [of s t K]]
    createPeerConnection_links [OF assms, of t] by simp_all

lemma handleOffer_linkInv:
  assumes "linkInv s"
  shows "linkInv (fst (handleOffer K s off t))"
    and "liveLinks (fst (handleOffer K s off t)) = [length (heap s)]"
  using sameLinks_linkInv [OF handleOffer_links [of s t K off]]
    sameLinks_liveLinks [OF handleOffer_links [of s t K off]]
    createPeerConnection_links [OF assms, of t] by simp_all

lemma caught_links: "sameLinks s (fst (caught s out))"
  by (simp add: caught_def sameLinks_def)

lemma initiateCall_linkInv:
  assumes "linkInv s"
  shows "linkInv (fst (initiateCall K s))"
    and "liveLinks (fst (initiateCall K s)) = [length (heap s)]"
proof -
  let ?s1 = "s\<lparr>callState := Calling\<rparr>"
  have i1: "linkInv ?s1" using assms sameLinks_linkInv [of s ?s1] by simp
  obtain s2 out offer where c: "createOffer K ?s1 (targetClientId ?s1) = (s2, out, offer)"
    by (cases "createOffer K ?s1 (targetClientId ?s1)")
  have i2: "linkInv s2" "liveLinks s2 = [length (heap s)]"
    using createOffer_linkInv [OF i1, of K "targetClientId ?s1"] c by simp_all
  have 3: "sameLinks s2 (fst (initiateCall K s))"
    using c by (simp add: initiateCall_def Let_def sameLinks_def split: option.splits)
  show "linkInv (fst (initiateCall K s))" using i2 sameLinks_linkInv [OF 3] by simp
  show "liveLinks (fst (initiateCall K s)) = [length (heap s)]"
    using i2 sameLinks_liveLinks [OF 3] by simp
qed

lemma linkInv_simps [simp]:
  "linkInv (fst (caught s out)) = linkInv s"
  "linkInv (s\<lparr>callState := c\<rparr>) = linkInv s"
  "linkInv (s\<lparr>callState := c, targetClientId := t\<rparr>) = linkInv s"
  "linkInv (fst (addIceCandidate K s cand)) = linkInv s"
  by (rule sameLinks_linkInv, simp add: caught_links addIceCandidate_links)+

lemma linkInv_updPc:
  "(\<And>p. pc_closed (f p) = pc_closed p) \<Longrightarrow> linkInv (updPc i f s) = linkInv s"
  by (rule sameLinks_linkInv) (rule sameLinks_updPc)

lemma handleWebSocketMessage_linkInv:
  assumes "linkInv s"
  shows "linkInv (fst (handleWebSocketMessage K s d))"
proof (cases "JSON_parse d")
  case None
  then show ?thesis using assms by (simp add: handleWebSocketMessage_def)
next
  case (Some m)
  show ?thesis
  proof (cases "getProp m ''target''")
    case None
    then show ?thesis using assms Some by (simp add: handleWebSocketMessage_def)
  next
    case tg: (Some target)
    let ?s1 = "s\<lparr>callState := Receiving, targetClientId := propOf m ''from''\<rparr>"
    obtain s2 out answer where
      h: "handleOffer K ?s1 (propOf m ''offer'') (propOf m ''from'') = (s2, out, answer)"
      by (cases "handleOffer K ?s1 (propOf m ''offer'') (propOf m ''from'')")
    have i2: "linkInv s2"
      using handleOffer_linkInv(1) [of ?s1 K "propOf m ''offer''" "propOf m ''from''"] assms h
      by simp
    show ?thesis
      using assms Some tg h i2
      by (simp add: handleWebSocketMessage_def Let_def linkInv_updPc split: option.splits)
  qed
qed

lemma step_linkInv:
  assumes "linkInv s"
  shows "linkInv (fst (step K s ev))"
proof (cases ev)
  case (Message d)
  then show ?thesis using assms by (simp add: handleWebSocketMessage_linkInv)
next
  case ClickStartCall
  then show ?thesis using assms by (simp add: initiateCall_linkInv)
qed (use assms in \<open>simp_all add: ws_onopen_def ws_onclose_def ws_onerror_def initializeMedia_def
      pc_onicecandidate_def pc_ontrack_def pc_onconnectionstatechange_def linkInv_def liveLinks_def
      split: option.splits\<close>)

lemma run_linkInv: "linkInv s \<Longrightarrow> linkInv (fst (run K s evs))"
proof (induction evs arbitrary: s)
  case Nil
  then show ?case by simp
next
  case (Cons ev evs)
  obtain s1 out1 where st: "step K s ev = (s1, out1)" by (cases "step K s ev")
  have "linkInv s1" using step_linkInv [OF Cons.prems, of K ev] st by simp
  then have "linkInv (fst (run K s1 evs))" by (rule Cons.IH)
  then show ?case using st by (simp add: split_beta)
qed

lemma init_linkInv: "linkInv (VoIPApp_init cid)"
  by (simp add: linkInv_def VoIPApp_init_def liveLinks_def)

lemma webrtc_ensureConnection_linkInv:
  assumes "linkInv s"
  shows "linkInv (fst (webrtc_ensureConnection s))"
proof (cases "peerConnectionRef s")
  case None
  then have nolive: "\<forall>i < length (heap s). pc_closed (heap s ! i)"
    using assms by (auto simp add: linkInv_def liveLinks_def)
  have "liveLinks (fst (webrtc_ensureConnection s)) = [length (heap s)]"
    using None nolive
    by (auto simp add: webrtc_ensureConnection_def webrtc_createPeerConnection_def liveLinks_def
        new_RTCPeerConnection_def nth_append filter_empty_conv)
  then show ?thesis using None
    by (simp add: linkInv_def webrtc_ensureConnection_def webrtc_createPeerConnection_def)
next
  case (Some pc)
  then show ?thesis using assms by (simp add: webrtc_ensureConnection_def)
qed

lemma webrtc_addTracks_links: "sameLinks s (fst (webrtc_addTracks K s pc tracks))"
proof (induction tracks arbitrary: s)
  case Nil
  then show ?case by simp
next
  case (Cons track tracks)
  let ?s' = "updPc pc (\<lambda>p. p\<lparr>pc_tracks := pc_tracks p @ [track]\<rparr>) s"
  have "sameLinks s ?s'" by (simp add: sameLinks_updPc)
  then show ?case using Cons.IH [of ?s'] sameLinks_trans by auto
qed

lemma webrtc_createOffer_links:
  "sameLinks (fst (webrtc_ensureConnection s)) (fst (webrtc_createOffer K s))"
proof -
  obtain s1 pc where r: "webrtc_ensureConnection s = (s1, pc)" by (cases "webrtc_ensureConnection s")
  let ?a = "case localStream s1 of None \<Rightarrow> (s1, True) | Some tracks \<Rightarrow> webrtc_addTracks K s1 pc tracks"
  obtain s2 added where a: "?a = (s2, added)" by (cases ?a)
  have 1: "sameLinks s1 s2"
  proof (cases "localStream s1")
    case None
    then show ?thesis using a by simp
  next
    case (Some tracks)
    then show ?thesis using webrtc_addTracks_links [of s1 K pc tracks] a by simp
  qed
  have 2: "sameLinks s2 (fst (webrtc_createOffer K s))"
    using a by (simp add: webrtc_createOffer_def r sameLinks_updPc split: option.splits)
  show ?thesis using sameLinks_trans [OF 1 2] r by simp
qed

lemma webrtc_handleOffer_links:
  "sameLinks (fst (webrtc_ensureConnection s)) (fst (webrtc_handleOffer K s off))"
proof -
  obtain s1 pc where r: "webrtc_ensureConnection s = (s1, pc)" by (cases "webrtc_ensureConnection s")
  let ?a = "case localStream s1 of None \<Rightarrow> (s1, True) | Some tracks \<Rightarrow> webrtc_addTracks K s1 pc tracks"
  obtain s2 added where a: "?a = (s2, added)" by (cases ?a)
  have 1: "sameLinks s1 s2"
  proof (cases "localStream s1")
    case None
    then show ?thesis using a by simp
  next
    case (Some tracks)
    then show ?thesis using webrtc_addTracks_links [of s1 K pc tracks] a by simp
  qed
  let ?s3 = "updPc pc (\<lambda>p. p\<lparr>pc_remoteDescription := Some off\<rparr>) s2"
  have 3: "sameLinks s2 ?s3" by (simp add: sameLinks_updPc)
  have 4: "sameLinks s2 (updPc pc (\<lambda>p. p\<lparr>pc_localDescription := Some x\<rparr>) ?s3)" for x
    by (rule sameLinks_trans [OF 3]) (simp add: sameLinks_updPc)
  have 2: "sameLinks s2 (fst (webrtc_handleOffer K s off))"
    using a 3 4 by (simp add: webrtc_handleOffer_def r Let_def split: option.splits)
  show ?thesis using sameLinks_trans [OF 1 2] r by simp
qed

lemma createOffer_length: "length (heap (fst (createOffer K s t))) = Suc (length (heap s))"
  by (simp add: createOffer_def createPeerConnection_def addTracks_def Let_def
      split: option.splits)

lemma initiateCall_length: "length (heap (fst (initiateCall K s))) = Suc (length (heap s))"
  using createOffer_length [of K "s\<lparr>callState := Calling\<rparr>" "targetClientId s"]
  by (simp add: initiateCall_def Let_def split_beta split: option.splits)

lemma webrtc_addTracks_length:
  "length (heap (fst (webrtc_addTracks K s pc tracks))) = length (heap s)"
  by (induction tracks arbitrary: s) simp_all

lemma webrtc_reuses_connection:
  assumes "peerConnectionRef s = Some pc"
  shows "length (heap (fst (webrtc_createOffer K s))) = length (heap s)"
    and "length (heap (fst (webrtc_handleOffer K s off))) = length (heap s)"
  using assms
  by (simp_all add: webrtc_createOffer_def webrtc_handleOffer_def webrtc_ensureConnection_def
      Let_def split_beta webrtc_addTracks_length split: option.splits)

text \<open>
  C5. From the first render on, after every event, at most one connection is not closed,
  and it is the one in \<^verbatim>\<open>peerConnectionRef.current\<close>. \<^verbatim>\<open>createPeerConnection\<close> closes the
  connection that was there and leaves the new one as the only live one, and so do
  \<^verbatim>\<open>createOffer\<close>, \<^verbatim>\<open>handleOffer\<close> and \<^verbatim>\<open>initiateCall\<close>, whatever the browser answers;
  after two call initiations in a row only the second connection is live. The hook of
  \<^verbatim>\<open>webrtc.js\<close> keeps the invariant too: it makes no connection when there is one.
\<close>

theorem single_active_link:
  "linkInv (VoIPApp_init cid) \<and>
   linkInv (fst (run K (VoIPApp_init cid) evs)) \<and>
   length (liveLinks (fst (run K (VoIPApp_init cid) evs))) \<le> 1 \<and>
   (linkInv s \<longrightarrow>
      linkInv (fst (step K s ev)) \<and> length (liveLinks (fst (step K s ev))) \<le> 1 \<and>
      liveLinks (fst (createPeerConnection s t)) = [length (heap s)] \<and>
      peerConnectionRef (fst (createPeerConnection s t)) = Some (length (heap s)) \<and>
      liveLinks (fst (createOffer K s t)) = [length (heap s)] \<and>
      liveLinks (fst (handleOffer K s off t)) = [length (heap s)] \<and>
      liveLinks (fst (initiateCall K s)) = [length (heap s)] \<and>
      liveLinks (fst (initiateCall K' (fst (initiateCall K s)))) = [Suc (length (heap s))] \<and>
      linkInv (fst (webrtc_createOffer K s)) \<and> linkInv (fst (webrtc_handleOffer K s off)) \<and>
      (peerConnectionRef s \<noteq> None \<longrightarrow>
         length (heap (fst (webrtc_createOffer K s))) = length (heap s) \<and>
         length (heap (fst (webrtc_handleOffer K s off))) = length (heap s)))"
proof -
  have a: "linkInv (VoIPApp_init cid)" by (rule init_linkInv)
  have b: "linkInv (fst (run K (VoIPApp_init cid) evs))" by (rule run_linkInv [OF a])
  have c: "length (liveLinks (fst (run K (VoIPApp_init cid) evs))) \<le> 1"
    by (rule linkInv_live_le [OF b])
  have d: "linkInv (fst (step K s ev)) \<and> length (liveLinks (fst (step K s ev))) \<le> 1 \<and>
      liveLinks (fst (createPeerConnection s t)) = [length (heap s)] \<and>
      peerConnectionRef (fst (createPeerConnection s t)) = Some (length (heap s)) \<and>
      liveLinks (fst (createOffer K s t)) = [length (heap s)] \<and>
      liveLinks (fst (handleOffer K s off t)) = [length (heap s)] \<and>
      liveLinks (fst (initiateCall K s)) = [length (heap s)] \<and>
      liveLinks (fst (initiateCall K' (fst (initiateCall K s)))) = [Suc (length (heap s))] \<and>
      linkInv (fst (webrtc_createOffer K s)) \<and> linkInv (fst (webrtc_handleOffer K s off)) \<and>
      (peerConnectionRef s \<noteq> None \<longrightarrow>
         length (heap (fst (webrtc_createOffer K s))) = length (heap s) \<and>
         length (heap (fst (webrtc_handleOffer K s off))) = length (heap s))"
    if i: "linkInv s"
  proof -
    have 1: "linkInv (fst (step K s ev))" by (rule step_linkInv [OF i])
    have 2: "length (liveLinks (fst (step K s ev))) \<le> 1" by (rule linkInv_live_le [OF 1])
    note cp = createPeerConnection_links [OF i, of t]
    have 3: "liveLinks (fst (createPeerConnection s t)) = [length (heap s)]"
      "peerConnectionRef (fst (createPeerConnection s t)) = Some (length (heap s))"
      using cp by simp_all
    have i1: "linkInv (fst (initiateCall K s))" by (rule initiateCall_linkInv(1) [OF i])
    have len: "length (heap (fst (initiateCall K s))) = Suc (length (heap s))"
      by (rule initiateCall_length)
    have 5: "liveLinks (fst (initiateCall K' (fst (initiateCall K s)))) = [Suc (length (heap s))]"
      using initiateCall_linkInv(2) [OF i1, of K'] len by simp
    have 6: "linkInv (fst (webrtc_createOffer K s))"
      using sameLinks_linkInv [OF webrtc_createOffer_links [of s K]]
        webrtc_ensureConnection_linkInv [OF i] by simp
    have 7: "linkInv (fst (webrtc_handleOffer K s off))"
      using sameLinks_linkInv [OF webrtc_handleOffer_links [of s K off]]
        webrtc_ensureConnection_linkInv [OF i] by simp
    have 8: "peerConnectionRef s \<noteq> None \<longrightarrow>
         length (heap (fst (webrtc_createOffer K s))) = length (heap s) \<and>
         length (heap (fst (webrtc_handleOffer K s off))) = length (heap s)"
      using webrtc_reuses_connection(1) [of s _ K] webrtc_reuses_connection(2) [of s _ K off]
      by auto
    show ?thesis
      using 1 2 3 5 6 7 8 createOffer_linkInv(2) [OF i, of K t]
        handleOffer_linkInv(2) [OF i, of K off t] initiateCall_linkInv(2) [OF i, of K]
      by simp
  qed
  show ?thesis using a b c d by blast
qed

theorem single_active_link_witness:
  "linkInv (VoIPApp_init ''1111'') \<and>
   liveLinks (VoIPApp_init ''1111'') = [] \<and>
   liveLinks (fst (initiateCall K_ok (VoIPApp_init ''1111''))) = [0] \<and>
   liveLinks (fst (initiateCall K_ok (fst (initiateCall K_ok (VoIPApp_init ''1111''))))) = [1]"
  using single_active_link [of "''1111''" K_ok "[]" "VoIPApp_init ''1111''" ClickStartCall JNull
      JNull K_ok]
  by (simp add: VoIPApp_init_def liveLinks_def)

section \<open>The call state\<close>

lemma createPeerConnection_frame:
  "callState (fst (createPeerConnection s t)) = callState s"
  "targetClientId (fst (createPeerConnection s t)) = targetClientId s"
  "clientId (fst (createPeerConnection s t)) = clientId s"
  "socket (fst (createPeerConnection s t)) = socket s"
  "localStream (fst (createPeerConnection s t)) = localStream s"
  by (simp_all add: createPeerConnection_def Let_def split: option.splits)

lemma addTracks_frame:
  "callState (fst (addTracks s pc)) = callState s"
  "targetClientId (fst (addTracks s pc)) = targetClientId s"
  "clientId (fst (addTracks s pc)) = clientId s"
  "socket (fst (addTracks s pc)) = socket s"
  by (simp_all add: addTracks_def split: option.splits)

lemma createOffer_frame:
  "callState (fst (createOffer K s t)) = callState s"
  "clientId (fst (createOffer K s t)) = clientId s"
  "socket (fst (createOffer K s t)) = socket s"
  "targetClientId (fst (createOffer K s t)) = targetClientId s"
  using createPeerConnection_frame [of s t]
    addTracks_frame [of "fst (createPeerConnection s t)" "snd (createPeerConnection s t)"]
  by (simp_all add: createOffer_def Let_def split_beta split: option.splits)

lemma handleOffer_frame:
  "callState (fst (handleOffer K s off t)) = callState s"
  "clientId (fst (handleOffer K s off t)) = clientId s"
  "socket (fst (handleOffer K s off t)) = socket s"
  "targetClientId (fst (handleOffer K s off t)) = targetClientId s"
  using createPeerConnection_frame [of s t]
    addTracks_frame [of "fst (createPeerConnection s t)" "snd (createPeerConnection s t)"]
  by (simp_all add: handleOffer_def Let_def split_beta split: option.splits)

lemma addIceCandidate_frame:
  "callState (fst (addIceCandidate K s c)) = callState s"
  "clientId (fst (addIceCandidate K s c)) = clientId s"
  by (simp_all add: addIceCandidate_def split: option.splits)

lemma initiateCall_callState:
  "callState (fst (initiateCall K s)) \<in> {Calling, Idle}"
  using createOffer_frame(1) [of K "s\<lparr>callState := Calling\<rparr>" "targetClientId s"]
  by (simp add: initiateCall_def Let_def split_beta split: option.splits)

lemma handle_callState_cases:
  "callState (fst (handleWebSocketMessage K s d)) = callState s \<or>
   callState (fst (handleWebSocketMessage K s d)) = Idle \<or>
   (\<exists>m. d = JSON m \<and> \<not> notForMe s m \<and>
      (propOf m ''type'' = JStr ''offer'' \<and> callState (fst (handleWebSocketMessage K s d)) = Receiving \<or>
       propOf m ''type'' = JStr ''answer'' \<and> callState (fst (handleWebSocketMessage K s d)) = Connected))"
proof (cases d)
  case NotJSON
  then show ?thesis by (simp add: handleWebSocketMessage_def caught_def)
next
  case (JSON m)
  have off: "callState (fst (handleOffer K (s\<lparr>callState := Receiving, targetClientId := propOf m ''from''\<rparr>)
                (propOf m ''offer'') (propOf m ''from''))) = Receiving"
    by (simp add: handleOffer_frame)
  show ?thesis
    using JSON off
    by (simp add: handleWebSocketMessage_def caught_def Let_def split_beta addIceCandidate_frame
        split: option.splits)
qed

text \<open>
  C3, as the code has it. From \<open>Idle\<close>, one event leads to \<open>Calling\<close> only if it is the
  click that starts a call, and to \<open>Receiving\<close> only if it is an \<^verbatim>\<open>offer\<close> message that
  passes the target filter. \<open>Connected\<close> is entered from another state only by an
  \<^verbatim>\<open>answer\<close> message that passes the target filter; and such a message leads to
  \<open>Connected\<close> from every state, \<open>Idle\<close> included, when there is no connection or the
  connection accepts the answer.
\<close>

theorem call_state_reachability:
  "(callState s = Idle \<and> callState (fst (step K s ev)) = Calling \<longrightarrow> ev = ClickStartCall) \<and>
   (callState s = Idle \<and> callState (fst (step K s ev)) = Receiving \<longrightarrow>
      (\<exists>m. ev = Message (JSON m) \<and> propOf m ''type'' = JStr ''offer'' \<and> \<not> notForMe s m)) \<and>
   (callState s \<noteq> Connected \<and> callState (fst (step K s ev)) = Connected \<longrightarrow>
      (\<exists>m. ev = Message (JSON m) \<and> propOf m ''type'' = JStr ''answer'' \<and> \<not> notForMe s m)) \<and>
   (\<forall>m. propOf m ''type'' = JStr ''answer'' \<and> \<not> notForMe s m \<and>
        (\<forall>pc. peerConnectionRef s = Some pc \<longrightarrow>
           co_setRemoteDescription K (heap s ! pc) (propOf m ''answer'')) \<longrightarrow>
        callState (fst (step K s (Message (JSON m)))) = Connected)"
proof -
  have other: "callState (fst (step K s ev)) = callState s"
    if "ev \<noteq> ClickStartCall" "\<forall>d. ev \<noteq> Message d"
    using that
    by (cases ev) (simp_all add: ws_onopen_def ws_onclose_def ws_onerror_def initializeMedia_def
        pc_onicecandidate_def pc_ontrack_def pc_onconnectionstatechange_def split: option.splits)
  have click: "callState (fst (step K s ClickStartCall)) \<in> {callState s, Calling, Idle}"
    using initiateCall_callState [of K s] by auto
  have msg: "callState (fst (step K s (Message d))) = callState s \<or>
     callState (fst (step K s (Message d))) = Idle \<or>
     (\<exists>m. d = JSON m \<and> \<not> notForMe s m \<and>
        (propOf m ''type'' = JStr ''offer'' \<and> callState (fst (step K s (Message d))) = Receiving \<or>
         propOf m ''type'' = JStr ''answer'' \<and> callState (fst (step K s (Message d))) = Connected))"
    for d
    using handle_callState_cases [of K s d] by simp
  have 1: "callState s = Idle \<and> callState (fst (step K s ev)) = Calling \<longrightarrow> ev = ClickStartCall"
  proof (cases ev)
    case (Message d)
    then show ?thesis using msg [of d] by auto
  qed (use other in auto)
  have 2: "callState s = Idle \<and> callState (fst (step K s ev)) = Receiving \<longrightarrow>
      (\<exists>m. ev = Message (JSON m) \<and> propOf m ''type'' = JStr ''offer'' \<and> \<not> notForMe s m)"
  proof (cases ev)
    case (Message d)
    then show ?thesis using msg [of d] by auto
  next
    case ClickStartCall
    then show ?thesis using click by auto
  qed (use other in auto)
  have 3: "callState s \<noteq> Connected \<and> callState (fst (step K s ev)) = Connected \<longrightarrow>
      (\<exists>m. ev = Message (JSON m) \<and> propOf m ''type'' = JStr ''answer'' \<and> \<not> notForMe s m)"
  proof (cases ev)
    case (Message d)
    then show ?thesis using msg [of d] by auto
  next
    case ClickStartCall
    then show ?thesis using click by auto
  qed (use other in auto)
  have 4: "\<forall>m. propOf m ''type'' = JStr ''answer'' \<and> \<not> notForMe s m \<and>
        (\<forall>pc. peerConnectionRef s = Some pc \<longrightarrow>
           co_setRemoteDescription K (heap s ! pc) (propOf m ''answer'')) \<longrightarrow>
        callState (fst (step K s (Message (JSON m)))) = Connected"
  proof (intro allI impI)
    fix m
    assume a: "propOf m ''type'' = JStr ''answer'' \<and> \<not> notForMe s m \<and>
        (\<forall>pc. peerConnectionRef s = Some pc \<longrightarrow>
           co_setRemoteDescription K (heap s ! pc) (propOf m ''answer''))"
    then obtain kvs where m: "m = JObj kvs" by (cases m) auto
    show "callState (fst (step K s (Message (JSON m)))) = Connected"
      using a by (simp add: m handleWebSocketMessage_def Let_def split: option.splits)
  qed
  from 1 2 3 4 show ?thesis by blast
qed

theorem call_state_reachability_witness:
  "callState (VoIPApp_init ''1111'') = Idle \<and>
   callState (fst (step K_ok (VoIPApp_init ''1111'') (Message (JSON offer_msg)))) = Receiving \<and>
   propOf offer_msg ''type'' = JStr ''offer'' \<and> \<not> notForMe (VoIPApp_init ''1111'') offer_msg \<and>
   propOf answer_msg ''type'' = JStr ''answer'' \<and> \<not> notForMe (VoIPApp_init ''1111'') answer_msg \<and>
   peerConnectionRef (VoIPApp_init ''1111'') = None \<and>
   callState (fst (step K_ok (VoIPApp_init ''1111'') (Message (JSON answer_msg)))) = Connected"
  using call_state_reachability [of "VoIPApp_init ''1111''" K_ok "Message (JSON offer_msg)"]
  by (simp add: VoIPApp_init_def offer_msg_def answer_msg_def notForMe_def
      handleWebSocketMessage_def handleOffer_def createPeerConnection_def addTracks_def
      K_ok_def updPc_def new_RTCPeerConnection_def sendMessage_def caught_def Let_def)

theorem idle_answer_connected:
  "callState (VoIPApp_init ''1111'') = Idle \<and>
   callState (fst (step K_ok (VoIPApp_init ''1111'') (Message (JSON answer_msg)))) = Connected"
  by (simp add: VoIPApp_init_def answer_msg_def notForMe_def handleWebSocketMessage_def Let_def)

text \<open>The example state \<open>in_call\<close>: the first render, with an open socket, after an offer.\<close>

lemma in_call_eq:
  "in_call =
    \<lparr>clientId = ''1111'', socket = Some OPEN, isConnected = False, callState = Receiving,
      mediaReady = False, targetClientId = JStr ''2222'', localStream = None,
      remoteStream = None, connectionState = ''new'',
      heap = [\<lparr>pc_target = JStr ''2222'', pc_closed = False, pc_tracks = [],
               pc_localDescription = Some sdp_answer, pc_remoteDescription = Some sdp_offer,
               pc_candidates = []\<rparr>],
      peerConnectionRef = Some 0\<rparr>"
  by (simp add: in_call_def VoIPApp_init_def offer_msg_def notForMe_def
      handleWebSocketMessage_def handleOffer_def createPeerConnection_def addTracks_def
      K_ok_def updPc_def new_RTCPeerConnection_def sendMessage_def Let_def)

text \<open>
  C4, as the code has it. For a message that passes the target filter: an
  \<^verbatim>\<open>ice-candidate\<close> with no connection changes nothing and writes nothing; so does an
  \<^verbatim>\<open>ice-candidate\<close> whose candidate is empty, with or without a connection; a candidate
  the connection rejects is logged and changes nothing; an \<^verbatim>\<open>answer\<close> with no connection
  raises nothing and changes the call state, to \<open>Connected\<close>, and nothing else.
\<close>

theorem no_link_messages:
  assumes "\<not> notForMe s m"
  shows
   "(propOf m ''type'' = JStr ''ice-candidate'' \<and> peerConnectionRef s = None \<longrightarrow>
       handleWebSocketMessage K s (JSON m) = (s, [])) \<and>
    (propOf m ''type'' = JStr ''ice-candidate'' \<and> \<not> truthy (propOf m ''candidate'') \<longrightarrow>
       handleWebSocketMessage K s (JSON m) = (s, [])) \<and>
    (\<forall>pc. propOf m ''type'' = JStr ''ice-candidate'' \<and> truthy (propOf m ''candidate'') \<and>
          peerConnectionRef s = Some pc \<and>
          \<not> co_addIceCandidate K (heap s ! pc) (propOf m ''candidate'') \<longrightarrow>
       handleWebSocketMessage K s (JSON m) =
         (s, [Console (ConsoleError ''Error adding ICE candidate:'')])) \<and>
    (propOf m ''type'' = JStr ''answer'' \<and> peerConnectionRef s = None \<longrightarrow>
       handleWebSocketMessage K s (JSON m) = (s\<lparr>callState := Connected\<rparr>, []))"
proof (cases m)
  case (JObj kvs)
  then show ?thesis using assms
    by (simp add: handleWebSocketMessage_def addIceCandidate_def Let_def split: option.splits)
qed simp_all

theorem no_link_messages_witness:
  "\<not> notForMe (VoIPApp_init ''1111'') ice_msg_to_1111 \<and>
   propOf ice_msg_to_1111 ''type'' = JStr ''ice-candidate'' \<and>
   peerConnectionRef (VoIPApp_init ''1111'') = None \<and>
   handleWebSocketMessage K_ok (VoIPApp_init ''1111'') (JSON ice_msg_to_1111) =
     (VoIPApp_init ''1111'', []) \<and>
   \<not> truthy (propOf ice_msg_empty ''candidate'') \<and>
   handleWebSocketMessage K_ok (VoIPApp_init ''1111'') (JSON ice_msg_empty) =
     (VoIPApp_init ''1111'', []) \<and>
   propOf answer_msg ''type'' = JStr ''answer'' \<and>
   handleWebSocketMessage K_ok (VoIPApp_init ''1111'') (JSON answer_msg) =
     ((VoIPApp_init ''1111'')\<lparr>callState := Connected\<rparr>, []) \<and>
   \<not> notForMe in_call ice_msg_malformed \<and>
   peerConnectionRef in_call = Some 0 \<and>
   truthy (propOf ice_msg_malformed ''candidate'') \<and>
   \<not> co_addIceCandidate K_ok (heap in_call ! 0) (propOf ice_msg_malformed ''candidate'') \<and>
   handleWebSocketMessage K_ok in_call (JSON ice_msg_malformed) =
     (in_call, [Console (ConsoleError ''Error adding ICE candidate:'')])"
proof -
  have a: "\<not> notForMe (VoIPApp_init ''1111'') ice_msg_to_1111"
    "\<not> notForMe (VoIPApp_init ''1111'') ice_msg_empty"
    "\<not> notForMe (VoIPApp_init ''1111'') answer_msg"
    "\<not> notForMe in_call ice_msg_malformed"
    by (simp_all add: VoIPApp_init_def ice_msg_to_1111_def ice_msg_empty_def answer_msg_def
        ice_msg_malformed_def notForMe_def in_call_eq)
  have b: "peerConnectionRef in_call = Some 0"
    "truthy (propOf ice_msg_malformed ''candidate'')"
    "\<not> co_addIceCandidate K_ok (heap in_call ! 0) (propOf ice_msg_malformed ''candidate'')"
    by (simp_all add: in_call_eq ice_msg_malformed_def K_ok_def)
  have c: "peerConnectionRef (VoIPApp_init ''1111'') = None"
    "propOf ice_msg_to_1111 ''type'' = JStr ''ice-candidate''"
    "\<not> truthy (propOf ice_msg_empty ''candidate'')"
    "propOf ice_msg_empty ''type'' = JStr ''ice-candidate''"
    "propOf answer_msg ''type'' = JStr ''answer''"
    "propOf ice_msg_malformed ''type'' = JStr ''ice-candidate''"
    by (simp_all add: VoIPApp_init_def ice_msg_to_1111_def ice_msg_empty_def answer_msg_def
        ice_msg_malformed_def)
  show ?thesis
    using no_link_messages [OF a(1), of K_ok] no_link_messages [OF a(2), of K_ok]
      no_link_messages [OF a(3), of K_ok] no_link_messages [OF a(4), of K_ok] a b c
    by simp
qed

theorem answer_without_link_changes_state:
  "peerConnectionRef (VoIPApp_init ''1111'') = None \<and>
   \<not> notForMe (VoIPApp_init ''1111'') answer_msg \<and>
   propOf answer_msg ''type'' = JStr ''answer'' \<and>
   handleWebSocketMessage K_ok (VoIPApp_init ''1111'') (JSON answer_msg) \<noteq>
     (VoIPApp_init ''1111'', []) \<and>
   callState (fst (handleWebSocketMessage K_ok (VoIPApp_init ''1111'') (JSON answer_msg))) \<noteq>
     callState (VoIPApp_init ''1111'')"
  by (simp add: VoIPApp_init_def answer_msg_def notForMe_def handleWebSocketMessage_def Let_def)

text \<open>
  C8, as the code has it. A message whose \<^verbatim>\<open>target\<close> is truthy (a string that is not
  empty, among others) and is not this controller's identity is dropped: the state is
  unchanged, nothing is sent and nothing is logged.
\<close>

theorem target_filter:
  assumes "truthy (propOf m ''target'')" and "propOf m ''target'' \<noteq> JStr (clientId s)"
  shows "handleWebSocketMessage K s (JSON m) = (s, [])"
proof (cases m)
  case (JObj kvs)
  then show ?thesis using assms
    by (simp add: handleWebSocketMessage_def notForMe_def)
qed (use assms in simp_all)

theorem target_filter_witness:
  "truthy (propOf offer_msg_other_target ''target'') \<and>
   propOf offer_msg_other_target ''target'' \<noteq> JStr (clientId (VoIPApp_init ''1111'')) \<and>
   handleWebSocketMessage K_ok (VoIPApp_init ''1111'') (JSON offer_msg_other_target) =
     (VoIPApp_init ''1111'', [])"
  using target_filter [of offer_msg_other_target "VoIPApp_init ''1111''" K_ok]
  by (simp add: offer_msg_other_target_def VoIPApp_init_def)

lemmas eval_defs = VoIPApp_init_def offer_msg_def answer_msg_def notForMe_def
      handleWebSocketMessage_def handleOffer_def createPeerConnection_def addTracks_def
      K_ok_def updPc_def new_RTCPeerConnection_def sendMessage_def caught_def Let_def
      addIceCandidate_def sdp_offer_def sdp_answer_def JSON_stringify_def

theorem empty_target_not_filtered:
  "propOf offer_msg_empty_target ''target'' = JStr [] \<and>
   propOf offer_msg_empty_target ''target'' \<noteq> JStr (clientId (VoIPApp_init ''1111'')) \<and>
   callState (VoIPApp_init ''1111'') = Idle \<and>
   callState (fst (handleWebSocketMessage K_ok (VoIPApp_init ''1111'') (JSON offer_msg_empty_target))) = Receiving \<and>
   targetClientId (VoIPApp_init ''1111'') = JNull \<and>
   targetClientId (fst (handleWebSocketMessage K_ok (VoIPApp_init ''1111'') (JSON offer_msg_empty_target))) = JStr ''2222'' \<and>
   peerConnectionRef (VoIPApp_init ''1111'') = None \<and>
   peerConnectionRef (fst (handleWebSocketMessage K_ok (VoIPApp_init ''1111'') (JSON offer_msg_empty_target))) = Some 0"
  by (simp add: offer_msg_empty_target_def eval_defs)

lemma handleOffer_always:
  "fst (snd (handleOffer K s off t)) =
     (case localStream s of None \<Rightarrow> [Console (ConsoleError ''No local stream available.'')]
      | Some tracks \<Rightarrow> [])"
  "peerConnectionRef (fst (handleOffer K s off t)) = Some (length (heap s))"
  "length (heap (fst (handleOffer K s off t))) = Suc (length (heap s))"
  "pc_target (heap (fst (handleOffer K s off t)) ! length (heap s)) = t"
  "\<not> pc_closed (heap (fst (handleOffer K s off t)) ! length (heap s))"
  "\<forall>old. peerConnectionRef s = Some old \<and> old < length (heap s) \<longrightarrow>
         pc_closed (heap (fst (handleOffer K s off t)) ! old)"
  by (simp_all add: handleOffer_def createPeerConnection_def addTracks_def updPc_def
      new_RTCPeerConnection_def Let_def nth_append nth_list_update split: option.splits)

lemma handleOffer_answer:
  "snd (snd (handleOffer K s off t)) =
     (if \<not> co_setRemoteDescription K (freshLink s t) off then None
      else case co_createAnswer K ((freshLink s t)\<lparr>pc_remoteDescription := Some off\<rparr>) of
             None \<Rightarrow> None
           | Some a \<Rightarrow>
               if co_setLocalDescription K ((freshLink s t)\<lparr>pc_remoteDescription := Some off\<rparr>) a
               then Some a else None)"
  by (simp add: handleOffer_def createPeerConnection_def addTracks_def updPc_def freshLink_def
      new_RTCPeerConnection_def Let_def nth_append nth_list_update split: option.splits)

text \<open>
  C10, as the code has it. An \<^verbatim>\<open>offer\<close> that passes the target filter is handled without
  regard to the call state: the result is the same from every call state. Whatever the
  browser does, the sender becomes the target, the connection that was there is closed and
  a new one for the sender is the current one. When the browser accepts the offer on the
  new connection and produces and sets the answer \<open>a\<close>, the controller ends in
  \<open>Receiving\<close>, and it sends an \<^verbatim>\<open>answer\<close> with the sender as its \<^verbatim>\<open>target\<close> if the
  socket is open and sends nothing if it is not. When the browser rejects the offer, makes
  no answer or rejects the answer, the controller ends in \<open>Idle\<close> and sends nothing.
\<close>

theorem offer_in_any_state:
  assumes "propOf m ''type'' = JStr ''offer''" and "\<not> notForMe s m"
  shows
   "handleWebSocketMessage K (s\<lparr>callState := c\<rparr>) (JSON m) = handleWebSocketMessage K s (JSON m) \<and>
    targetClientId (fst (handleWebSocketMessage K s (JSON m))) = propOf m ''from'' \<and>
    peerConnectionRef (fst (handleWebSocketMessage K s (JSON m))) = Some (length (heap s)) \<and>
    length (heap (fst (handleWebSocketMessage K s (JSON m)))) = Suc (length (heap s)) \<and>
    pc_target (heap (fst (handleWebSocketMessage K s (JSON m))) ! length (heap s)) =
      propOf m ''from'' \<and>
    \<not> pc_closed (heap (fst (handleWebSocketMessage K s (JSON m))) ! length (heap s)) \<and>
    (\<forall>old. peerConnectionRef s = Some old \<and> old < length (heap s) \<longrightarrow>
       pc_closed (heap (fst (handleWebSocketMessage K s (JSON m))) ! old)) \<and>
    (co_setRemoteDescription K (freshLink s (propOf m ''from'')) (propOf m ''offer'') \<and>
     co_createAnswer K
       ((freshLink s (propOf m ''from''))\<lparr>pc_remoteDescription := Some (propOf m ''offer'')\<rparr>) =
       Some a \<and>
     co_setLocalDescription K
       ((freshLink s (propOf m ''from''))\<lparr>pc_remoteDescription := Some (propOf m ''offer'')\<rparr>) a
     \<longrightarrow>
       callState (fst (handleWebSocketMessage K s (JSON m))) = Receiving \<and>
       snd (handleWebSocketMessage K s (JSON m)) =
         (case localStream s of None \<Rightarrow> [Console (ConsoleError ''No local stream available.'')]
          | Some tracks \<Rightarrow> []) @
         (if socket s = Some OPEN
          then [Send (JSON_stringify (JObj [(''type'', JStr ''answer''), (''answer'', a),
                                            (''target'', propOf m ''from''),
                                            (''from'', JStr (clientId s))]))]
          else [])) \<and>
    (\<not> co_setRemoteDescription K (freshLink s (propOf m ''from'')) (propOf m ''offer'') \<or>
     co_createAnswer K
       ((freshLink s (propOf m ''from''))\<lparr>pc_remoteDescription := Some (propOf m ''offer'')\<rparr>) =
       None \<or>
     (\<exists>b. co_createAnswer K
            ((freshLink s (propOf m ''from''))\<lparr>pc_remoteDescription := Some (propOf m ''offer'')\<rparr>) =
            Some b \<and>
          \<not> co_setLocalDescription K
            ((freshLink s (propOf m ''from''))\<lparr>pc_remoteDescription := Some (propOf m ''offer'')\<rparr>) b)
     \<longrightarrow>
       callState (fst (handleWebSocketMessage K s (JSON m))) = Idle \<and>
       snd (handleWebSocketMessage K s (JSON m)) =
         (case localStream s of None \<Rightarrow> [Console (ConsoleError ''No local stream available.'')]
          | Some tracks \<Rightarrow> []) @
         [Console (ConsoleError ''Error handling WebSocket message:'')])"
proof -
  obtain kvs where m: "m = JObj kvs" using assms(1) by (cases m) auto
  have g: "getProp m ''target'' = Some (propOf m ''target'')" unfolding m by simp
  have nf: "notForMe (s\<lparr>callState := c\<rparr>) m = notForMe s m" by (simp add: notForMe_def)
  have indep: "handleWebSocketMessage K (s\<lparr>callState := c\<rparr>) (JSON m) =
               handleWebSocketMessage K s (JSON m)"
    using assms g nf by (simp add: handleWebSocketMessage_def)
  let ?s1 = "s\<lparr>callState := Receiving, targetClientId := propOf m ''from''\<rparr>"
  let ?h = "handleOffer K ?s1 (propOf m ''offer'') (propOf m ''from'')"
  let ?p0 = "freshLink s (propOf m ''from'')"
  let ?p1 = "?p0\<lparr>pc_remoteDescription := Some (propOf m ''offer'')\<rparr>"
  let ?pre = "case localStream s of None \<Rightarrow> [Console (ConsoleError ''No local stream available.'')]
          | Some tracks \<Rightarrow> []"
  let ?r = "handleWebSocketMessage K s (JSON m)"
  have r: "?r =
      (case snd (snd ?h) of None \<Rightarrow> caught (fst ?h) (fst (snd ?h))
       | Some a \<Rightarrow> (fst ?h, fst (snd ?h) @ sendMessage (fst ?h)
             [(''type'', JStr ''answer''), (''answer'', a), (''target'', propOf m ''from'')]))"
    using assms g by (simp add: handleWebSocketMessage_def Let_def split_beta)
  have fl: "freshLink ?s1 (propOf m ''from'') = ?p0" by (simp add: freshLink_def)
  note ha = handleOffer_always [where K = K and s = ?s1 and off = "propOf m ''offer''"
      and t = "propOf m ''from''"]
  note an = handleOffer_answer [where K = K and s = ?s1 and off = "propOf m ''offer''"
      and t = "propOf m ''from''", unfolded fl]
  have f: "targetClientId (fst ?h) = propOf m ''from''" "callState (fst ?h) = Receiving"
    "socket (fst ?h) = socket s" "clientId (fst ?h) = clientId s"
    by (simp_all add: handleOffer_frame)
  have st: "fst ?r = fst ?h \<or> fst ?r = (fst ?h)\<lparr>callState := Idle\<rparr>"
    unfolding r by (simp add: caught_def split: option.splits)
  have u: "targetClientId (fst ?r) = propOf m ''from'' \<and>
    peerConnectionRef (fst ?r) = Some (length (heap s)) \<and>
    length (heap (fst ?r)) = Suc (length (heap s)) \<and>
    pc_target (heap (fst ?r) ! length (heap s)) = propOf m ''from'' \<and>
    \<not> pc_closed (heap (fst ?r) ! length (heap s)) \<and>
    (\<forall>old. peerConnectionRef s = Some old \<and> old < length (heap s) \<longrightarrow>
       pc_closed (heap (fst ?r) ! old))"
    using st ha f by auto
  have acc: "callState (fst ?r) = Receiving \<and>
       snd ?r = ?pre @
         (if socket s = Some OPEN
          then [Send (JSON_stringify (JObj [(''type'', JStr ''answer''), (''answer'', a),
                                            (''target'', propOf m ''from''),
                                            (''from'', JStr (clientId s))]))]
          else [])"
    if "co_setRemoteDescription K ?p0 (propOf m ''offer'')" "co_createAnswer K ?p1 = Some a"
      "co_setLocalDescription K ?p1 a"
  proof -
    have "snd (snd ?h) = Some a" using an that by simp
    then show ?thesis unfolding r using ha(1) f by (simp add: sendMessage_def)
  qed
  have rej: "callState (fst ?r) = Idle \<and>
       snd ?r = ?pre @ [Console (ConsoleError ''Error handling WebSocket message:'')]"
    if "\<not> co_setRemoteDescription K ?p0 (propOf m ''offer'') \<or> co_createAnswer K ?p1 = None \<or>
        (\<exists>b. co_createAnswer K ?p1 = Some b \<and> \<not> co_setLocalDescription K ?p1 b)"
  proof -
    have "snd (snd ?h) = None" using an that by (auto split: option.splits)
    then show ?thesis unfolding r using ha(1) by (simp add: caught_def)
  qed
  show ?thesis using indep u acc rej by blast
qed


theorem offer_in_any_state_witness:
  "propOf offer_msg ''type'' = JStr ''offer'' \<and> \<not> notForMe in_call offer_msg \<and>
   callState in_call = Receiving \<and> peerConnectionRef in_call = Some 0 \<and>
   socket in_call = Some OPEN \<and>
   co_setRemoteDescription K_ok (freshLink in_call (JStr ''2222'')) sdp_offer \<and>
   callState (fst (handleWebSocketMessage K_ok in_call (JSON offer_msg))) = Receiving \<and>
   targetClientId (fst (handleWebSocketMessage K_ok in_call (JSON offer_msg))) = JStr ''2222'' \<and>
   peerConnectionRef (fst (handleWebSocketMessage K_ok in_call (JSON offer_msg))) = Some 1 \<and>
   pc_closed (heap (fst (handleWebSocketMessage K_ok in_call (JSON offer_msg))) ! 0) \<and>
   snd (handleWebSocketMessage K_ok in_call (JSON offer_msg)) =
     [Console (ConsoleError ''No local stream available.''),
      Send (JSON (JObj [(''type'', JStr ''answer''), (''answer'', sdp_answer),
                        (''target'', JStr ''2222''), (''from'', JStr ''1111'')]))] \<and>
   propOf offer_msg_bad ''type'' = JStr ''offer'' \<and> \<not> notForMe in_call offer_msg_bad \<and>
   \<not> co_setRemoteDescription K_strict (freshLink in_call (JStr ''2222'')) (JStr ''garbage'') \<and>
   callState (fst (handleWebSocketMessage K_strict in_call (JSON offer_msg_bad))) = Idle \<and>
   peerConnectionRef (fst (handleWebSocketMessage K_strict in_call (JSON offer_msg_bad))) = Some 1 \<and>
   snd (handleWebSocketMessage K_strict in_call (JSON offer_msg_bad)) =
     [Console (ConsoleError ''No local stream available.''),
      Console (ConsoleError ''Error handling WebSocket message:'')]"
proof -
  note e = in_call_eq
  have h: "propOf offer_msg ''type'' = JStr ''offer''" "\<not> notForMe in_call offer_msg"
    "propOf offer_msg_bad ''type'' = JStr ''offer''" "\<not> notForMe in_call offer_msg_bad"
    by (simp_all add: offer_msg_def offer_msg_bad_def notForMe_def e)
  have k: "co_setRemoteDescription K_ok (freshLink in_call (JStr ''2222'')) sdp_offer"
    "co_createAnswer K_ok
       ((freshLink in_call (JStr ''2222''))\<lparr>pc_remoteDescription := Some sdp_offer\<rparr>) =
       Some sdp_answer"
    "co_setLocalDescription K_ok
       ((freshLink in_call (JStr ''2222''))\<lparr>pc_remoteDescription := Some sdp_offer\<rparr>) sdp_answer"
    "\<not> co_setRemoteDescription K_strict (freshLink in_call (JStr ''2222'')) (JStr ''garbage'')"
    by (simp_all add: K_ok_def K_strict_def)
  have p: "propOf offer_msg ''from'' = JStr ''2222''" "propOf offer_msg ''offer'' = sdp_offer"
    "propOf offer_msg_bad ''from'' = JStr ''2222''" "propOf offer_msg_bad ''offer'' = JStr ''garbage''"
    by (simp_all add: offer_msg_def offer_msg_bad_def)
  have q: "callState in_call = Receiving" "peerConnectionRef in_call = Some 0"
    "socket in_call = Some OPEN" "localStream in_call = None" "clientId in_call = ''1111''"
    "length (heap in_call) = 1"
    by (simp_all add: e)
  have j: "JSON_stringify (JObj [(''type'', JStr ''answer''), (''answer'', sdp_answer),
                                 (''target'', JStr ''2222''), (''from'', JStr ''1111'')]) =
           JSON (JObj [(''type'', JStr ''answer''), (''answer'', sdp_answer),
                        (''target'', JStr ''2222''), (''from'', JStr ''1111'')])"
    by (simp add: JSON_stringify_def sdp_answer_def)
  show ?thesis
    using offer_in_any_state [OF h(1,2), of K_ok Idle sdp_answer]
      offer_in_any_state [OF h(3,4), of K_strict Idle sdp_answer] h k
    by (simp add: p q j)
qed

theorem offer_rejected_or_socket_not_open:
  "propOf offer_msg_bad ''type'' = JStr ''offer'' \<and> \<not> notForMe in_call offer_msg_bad \<and>
   socket in_call = Some OPEN \<and>
   callState (fst (handleWebSocketMessage K_strict in_call (JSON offer_msg_bad))) = Idle \<and>
   snd (handleWebSocketMessage K_strict in_call (JSON offer_msg_bad)) =
     [Console (ConsoleError ''No local stream available.''),
      Console (ConsoleError ''Error handling WebSocket message:'')] \<and>
   propOf offer_msg ''type'' = JStr ''offer'' \<and> \<not> notForMe in_call_closing offer_msg \<and>
   socket in_call_closing = Some CLOSING \<and>
   callState (fst (handleWebSocketMessage K_ok in_call_closing (JSON offer_msg))) = Receiving \<and>
   snd (handleWebSocketMessage K_ok in_call_closing (JSON offer_msg)) =
     [Console (ConsoleError ''No local stream available.'')]"
  by (simp add: in_call_closing_def in_call_eq offer_msg_def offer_msg_bad_def notForMe_def
      handleWebSocketMessage_def handleOffer_def createPeerConnection_def addTracks_def
      K_ok_def K_strict_def updPc_def new_RTCPeerConnection_def sendMessage_def caught_def Let_def)

section \<open>The client identity\<close>

lemma toString_nonempty: "toString n \<noteq> []"
  by (subst toString.simps) simp

lemma generateClientId_props:
  "snd (generateClientId rnd ls) ''voip-client-id'' = Some (fst (generateClientId rnd ls))"
  "fst (generateClientId rnd ls) \<noteq> []"
  by (simp_all add: generateClientId_def toString_nonempty split: option.splits)

lemma generateClientId_again:
  "generateClientId rnd' (snd (generateClientId rnd ls)) = generateClientId rnd ls"
  by (simp add: generateClientId_def toString_nonempty split: option.splits)

lemma registersAs_console [simp]:
  "registersAs cid (Console c)" "registersAs cid (SetTimeout n)" "registersAs cid NewWebSocket"
  by (simp_all add: registersAs_def)

lemma sendMessage_registersAs:
  "t \<noteq> ''register'' \<Longrightarrow> e \<in> set (sendMessage s ((''type'', JStr t) # rest)) \<Longrightarrow> registersAs cid e"
  by (auto simp add: sendMessage_def JSON_stringify_def registersAs_def split: if_splits)

lemma addTracks_out: "e \<in> set (snd (addTracks s pc)) \<Longrightarrow> registersAs cid e"
  by (auto simp add: addTracks_def split: option.splits)

lemma createOffer_out: "e \<in> set (fst (snd (createOffer K s t))) \<Longrightarrow> registersAs cid e"
  using addTracks_out [of e "fst (createPeerConnection s t)" "snd (createPeerConnection s t)" cid]
  by (auto simp add: createOffer_def Let_def split_beta split: option.splits if_splits)

lemma handleOffer_out: "e \<in> set (fst (snd (handleOffer K s off t))) \<Longrightarrow> registersAs cid e"
  using addTracks_out [of e "fst (createPeerConnection s t)" "snd (createPeerConnection s t)" cid]
  by (auto simp add: handleOffer_def Let_def split_beta split: option.splits if_splits)

lemma addIceCandidate_out: "e \<in> set (snd (addIceCandidate K s c)) \<Longrightarrow> registersAs cid e"
  by (auto simp add: addIceCandidate_def split: option.splits if_splits)

lemma initiateCall_out:
  assumes "e \<in> set (snd (initiateCall K s))"
  shows "registersAs cid e"
proof -
  let ?c = "createOffer K (s\<lparr>callState := Calling\<rparr>) (targetClientId s)"
  from assms have "e \<in> set (fst (snd ?c)) \<or> e = Console (ConsoleError ''Call initiation failed:'') \<or>
     (\<exists>off. e \<in> set (sendMessage (fst ?c) ((''type'', JStr ''offer'') #
                 [(''offer'', off), (''target'', targetClientId (fst ?c))])))"
    by (auto simp add: initiateCall_def Let_def split_beta split: option.splits)
  then show ?thesis
    using createOffer_out [of e K _ _ cid] sendMessage_registersAs [of "''offer''" e _ _ cid]
    by auto
qed

lemma handleWebSocketMessage_out:
  assumes "e \<in> set (snd (handleWebSocketMessage K s d))"
  shows "registersAs cid e"
proof -
  have "(\<exists>s' off t. e \<in> set (fst (snd (handleOffer K s' off t)))) \<or>
        (\<exists>c. e = Console c) \<or>
        (\<exists>s' rest. e \<in> set (sendMessage s' ((''type'', JStr ''answer'') # rest))) \<or>
        (\<exists>c. e \<in> set (snd (addIceCandidate K s c)))"
    using assms
    by (auto simp add: handleWebSocketMessage_def caught_def Let_def split_beta
        split: option.splits if_splits)
  then show ?thesis
    using handleOffer_out [of e K _ _ _ cid] sendMessage_registersAs [of "''answer''" e _ _ cid]
      addIceCandidate_out [of e K s _ cid]
    by auto
qed

lemma step_out:
  assumes "e \<in> set (snd (step K s ev))"
  shows "registersAs (clientId s) e"
proof (cases ev)
  case WsOpen
  then show ?thesis using assms
    by (auto simp add: ws_onopen_def registersAs_def JSON_stringify_def)
next
  case (Message d)
  then show ?thesis using assms handleWebSocketMessage_out by simp
next
  case ClickStartCall
  then show ?thesis using assms initiateCall_out by (simp split: if_splits)
next
  case (IceCandidate pc c)
  then show ?thesis using assms sendMessage_registersAs [of "''ice-candidate''" e s _ "clientId s"]
    by (auto simp add: pc_onicecandidate_def split: if_splits)
qed (use assms in \<open>auto simp add: ws_onclose_def ws_onerror_def initializeMedia_def
      pc_ontrack_def pc_onconnectionstatechange_def split: option.splits\<close>)

lemma initiateCall_clientId: "clientId (fst (initiateCall K s)) = clientId s"
  using createOffer_frame(2) [of K "s\<lparr>callState := Calling\<rparr>" "targetClientId s"]
  by (simp add: initiateCall_def Let_def split_beta split: option.splits)

lemma handleWebSocketMessage_clientId:
  "clientId (fst (handleWebSocketMessage K s d)) = clientId s"
  by (simp add: handleWebSocketMessage_def caught_def Let_def split_beta handleOffer_frame
      addIceCandidate_frame split: option.splits)

lemma step_clientId: "clientId (fst (step K s ev)) = clientId s"
  by (cases ev) (simp_all add: ws_onopen_def ws_onclose_def ws_onerror_def initializeMedia_def
      pc_onicecandidate_def pc_ontrack_def pc_onconnectionstatechange_def
      initiateCall_clientId handleWebSocketMessage_clientId split: option.splits)

lemma run_clientId: "clientId (fst (run K s evs)) = clientId s"
  by (induction evs arbitrary: s) (simp_all add: split_beta step_clientId)

lemma run_out: "e \<in> set (snd (run K s evs)) \<Longrightarrow> registersAs (clientId s) e"
proof (induction evs arbitrary: s)
  case Nil
  then show ?case by simp
next
  case (Cons ev evs)
  then have "e \<in> set (snd (step K s ev)) \<or> e \<in> set (snd (run K (fst (step K s ev)) evs))"
    by (auto simp add: split_beta)
  then show ?case
    using step_out [of e K s ev] Cons.IH [of "fst (step K s ev)"] by (auto simp add: step_clientId)
qed

text \<open>
  C9. \<^verbatim>\<open>generateClientId\<close> leaves its result in the storage; a later call, whatever the
  random number, returns the same identity and leaves the storage alone; an identity
  already stored is returned as it is. The controller's identity never changes, every
  \<^verbatim>\<open>register\<close> message it sends carries it, one is sent each time a socket opens, and a
  closed socket is replaced after a fixed delay of 3000 ms.
\<close>

theorem client_identity_stable:
  "snd (generateClientId rnd ls) ''voip-client-id'' = Some (fst (generateClientId rnd ls)) \<and>
   generateClientId rnd' (snd (generateClientId rnd ls)) = generateClientId rnd ls \<and>
   (\<forall>v. ls ''voip-client-id'' = Some v \<and> v \<noteq> [] \<longrightarrow> generateClientId rnd ls = (v, ls)) \<and>
   clientId (fst (run K (VoIPApp_init (fst (generateClientId rnd ls))) evs)) =
     fst (generateClientId rnd ls) \<and>
   (\<forall>e \<in> set (snd (run K (VoIPApp_init (fst (generateClientId rnd ls))) evs)).
      registersAs (fst (generateClientId rnd ls)) e) \<and>
   clientId (fst (step K s ev)) = clientId s \<and>
   snd (step K s WsOpen) =
     [Console (ConsoleLog ''WebSocket Connected''),
      Send (JSON (JObj [(''type'', JStr ''register''), (''clientId'', JStr (clientId s))]))] \<and>
   snd (step K s WsClose) = [Console (ConsoleLog ''WebSocket Disconnected''), SetTimeout 3000] \<and>
   step K s TimerFired = (s, [NewWebSocket])"
proof -
  let ?cid = "fst (generateClientId rnd ls)"
  have 1: "snd (generateClientId rnd ls) ''voip-client-id'' = Some ?cid"
    by (rule generateClientId_props)
  have 2: "generateClientId rnd' (snd (generateClientId rnd ls)) = generateClientId rnd ls"
    by (rule generateClientId_again)
  have 3: "\<forall>v. ls ''voip-client-id'' = Some v \<and> v \<noteq> [] \<longrightarrow> generateClientId rnd ls = (v, ls)"
    by (simp add: generateClientId_def)
  have c0: "clientId (VoIPApp_init ?cid) = ?cid" by (simp add: VoIPApp_init_def)
  have 4: "clientId (fst (run K (VoIPApp_init ?cid) evs)) = ?cid"
    using run_clientId [of K "VoIPApp_init ?cid" evs] c0 by simp
  have 5: "\<forall>e \<in> set (snd (run K (VoIPApp_init ?cid) evs)). registersAs ?cid e"
  proof
    fix e
    assume "e \<in> set (snd (run K (VoIPApp_init ?cid) evs))"
    then have "registersAs (clientId (VoIPApp_init ?cid)) e" by (rule run_out)
    then show "registersAs ?cid e" by (simp only: c0)
  qed
  have 6: "snd (step K s WsOpen) =
     [Console (ConsoleLog ''WebSocket Connected''),
      Send (JSON (JObj [(''type'', JStr ''register''), (''clientId'', JStr (clientId s))]))]"
    by (simp add: ws_onopen_def JSON_stringify_def)
  have 7: "snd (step K s WsClose) = [Console (ConsoleLog ''WebSocket Disconnected''), SetTimeout 3000]"
    by (simp add: ws_onclose_def)
  have 8: "step K s TimerFired = (s, [NewWebSocket])" by simp
  note 9 = step_clientId [of K s ev]
  show ?thesis by (intro conjI) (fact 1 2 3 4 5 6 7 8 9)+
qed

theorem client_identity_stable_witness:
  "generateClientId 4321 Map.empty = (''4321'', [''voip-client-id'' \<mapsto> ''4321'']) \<and>
   generateClientId 9999 [''voip-client-id'' \<mapsto> ''4321''] =
     (''4321'', [''voip-client-id'' \<mapsto> ''4321'']) \<and>
   snd (run K_ok (VoIPApp_init ''4321'') [WsOpen, WsClose, TimerFired, WsOpen]) =
     [Console (ConsoleLog ''WebSocket Connected''),
      Send (JSON (JObj [(''type'', JStr ''register''), (''clientId'', JStr ''4321'')])),
      Console (ConsoleLog ''WebSocket Disconnected''), SetTimeout 3000,
      NewWebSocket,
      Console (ConsoleLog ''WebSocket Connected''),
      Send (JSON (JObj [(''type'', JStr ''register''), (''clientId'', JStr ''4321'')]))] \<and>
   list_all (registersAs ''4321'')
     (snd (run K_ok (VoIPApp_init ''4321'') [WsOpen, WsClose, TimerFired, WsOpen]))"
proof -
  have t: "toString 4321 = ''4321''" by (simp add: toString.simps)
  have g: "generateClientId 4321 Map.empty = (''4321'', [''voip-client-id'' \<mapsto> ''4321''])"
    by (simp add: generateClientId_def t)
  have g': "generateClientId 9999 [''voip-client-id'' \<mapsto> ''4321''] =
     (''4321'', [''voip-client-id'' \<mapsto> ''4321''])"
    by (simp add: generateClientId_def)
  have r: "snd (run K_ok (VoIPApp_init ''4321'') [WsOpen, WsClose, TimerFired, WsOpen]) =
     [Console (ConsoleLog ''WebSocket Connected''),
      Send (JSON (JObj [(''type'', JStr ''register''), (''clientId'', JStr ''4321'')])),
      Console (ConsoleLog ''WebSocket Disconnected''), SetTimeout 3000,
      NewWebSocket,
      Console (ConsoleLog ''WebSocket Connected''),
      Send (JSON (JObj [(''type'', JStr ''register''), (''clientId'', JStr ''4321'')]))]"
    by (simp add: VoIPApp_init_def ws_onopen_def ws_onclose_def JSON_stringify_def)
  have a: "\<forall>e \<in> set (snd (run K_ok (VoIPApp_init ''4321'') [WsOpen, WsClose, TimerFired, WsOpen])).
      registersAs ''4321'' e"
    using client_identity_stable [of 4321 Map.empty 9999 K_ok
        "[WsOpen, WsClose, TimerFired, WsOpen]" "VoIPApp_init ''4321''" WsOpen,
        THEN conjunct2, THEN conjunct2, THEN conjunct2, THEN conjunct2, THEN conjunct1]
    by (simp only: g fst_conv)
  have b: "list_all (registersAs ''4321'')
     (snd (run K_ok (VoIPApp_init ''4321'') [WsOpen, WsClose, TimerFired, WsOpen]))"
    using a by (simp only: list_all_iff)
  show ?thesis by (intro conjI) (fact g g' r b)+
qed

end
